theory Spec2Isabelle
  imports Main
begin

section \<open>Phased dynamic analysis: \<open>internal/worker/rundynamic.go\<close>\<close>

subsection \<open>Data\<close>

text \<open>
  \<open>pkgecosystem.RunPhase\<close> and \<open>analysis.Status\<close> are string types; the zero value of
  both is the empty string, which is what \<open>var lastRunPhase\<close> and \<open>var lastStatus\<close>
  hold before the first iteration.
\<close>

type_synonym RunPhase = string
type_synonym Status = string

text \<open>
  Modelled from the spec: the constant \<open>analysis.StatusCompleted\<close> is declared outside
  the source at hand; the spec names the value of the completion status as "completed".
\<close>

definition StatusCompleted :: Status where
  "StatusCompleted = ''completed''"

text \<open>
  \<open>dynamicanalysis.StraceSummary\<close>: only its \<open>Status\<close> field is read by the worker; the
  remaining fields are carried as one opaque component. \<open>dynamicanalysis.FileWrites\<close> is
  opaque altogether.
\<close>

record 'ss StraceSummary =
  Status :: Status
  other_fields :: 'ss

text \<open>\<open>dynamicanalysis.Result\<close>, with the two fields the worker reads.\<close>

record ('ss, 'fw) Result =
  Result_StraceSummary :: "'ss StraceSummary"
  Result_FileWrites :: 'fw

type_synonym 'ss DynamicAnalysisStraceSummary = "RunPhase \<rightharpoonup> 'ss StraceSummary"
type_synonym 'fw DynamicAnalysisFileWrites = "RunPhase \<rightharpoonup> 'fw"

record ('ss, 'fw) DynamicAnalysisResults =
  StraceSummary :: "'ss DynamicAnalysisStraceSummary"
  FileWrites :: "'fw DynamicAnalysisFileWrites"

text \<open>
  The package descriptor, as far as the worker uses it: \<open>pkg.Manager().RunPhases()\<close> and
  \<open>pkg.Command(phase)\<close>.
\<close>

record 'cmd Pkg =
  RunPhases :: "RunPhase list"
  Command :: "RunPhase \<Rightarrow> 'cmd"

text \<open>
  \<open>dynamicanalysis.Run(sb, cmd)\<close> acts on the sandbox and returns either an error or a
  result. The sandbox is threaded through explicitly: a call takes the sandbox as it is
  and returns it as the call leaves it.
\<close>

type_synonym ('sb, 'cmd, 'e, 'ss, 'fw) Run =
  "'sb \<Rightarrow> 'cmd \<Rightarrow> ('e + ('ss, 'fw) Result) \<times> 'sb"

text \<open>The two logging calls after the loop, recorded as the entry they write.\<close>

datatype 'e log_entry =
  LogDynamicAnalysisError RunPhase 'e
| LogDynamicAnalysisResult RunPhase Status

text \<open>The local variables of \<open>RunDynamicAnalysis\<close>, together with the sandbox.\<close>

record ('sb, 'e, 'ss, 'fw) locals =
  results :: "('ss, 'fw) DynamicAnalysisResults"
  lastRunPhase :: RunPhase
  lastStatus :: Status
  lastError :: "'e option"
  sb :: 'sb

subsection \<open>The walk over the phases\<close>

text \<open>
  Lines 61 and 62: \<open>results.StraceSummary[phase] = &result.StraceSummary\<close> and
  \<open>results.FileWrites[phase] = &result.FileWrites\<close>. The variable \<open>result\<close> is
  declared anew in every iteration, so the two pointers stored for a phase are shared
  with nothing else, and the maps are modelled as holding the values.
\<close>

definition record_phase ::
  "('ss, 'fw) DynamicAnalysisResults \<Rightarrow> RunPhase \<Rightarrow> ('ss, 'fw) Result
    \<Rightarrow> ('ss, 'fw) DynamicAnalysisResults" where
  "record_phase res phase result =
     res\<lparr>StraceSummary := (StraceSummary res)(phase \<mapsto> Result_StraceSummary result),
         FileWrites := (FileWrites res)(phase \<mapsto> Result_FileWrites result)\<rparr>"

text \<open>
  The body of the \<open>for\<close> loop, one equation per remaining phase list; each \<open>break\<close>
  returns the locals as they are at that point.
\<close>

fun phase_loop ::
  "('sb, 'cmd, 'e, 'ss, 'fw) Run \<Rightarrow> 'cmd Pkg \<Rightarrow> ('sb, 'e, 'ss, 'fw) locals \<Rightarrow> RunPhase list
    \<Rightarrow> ('sb, 'e, 'ss, 'fw) locals" where
  "phase_loop run pkg st [] = st"
| "phase_loop run pkg st (phase # rest) =
     (case run (sb st) (Command pkg phase) of
        (Inl err, sb') \<Rightarrow>
          st\<lparr>lastRunPhase := phase, lastStatus := [], lastError := Some err, sb := sb'\<rparr>
      | (Inr result, sb') \<Rightarrow>
          (let st' = st\<lparr>lastRunPhase := phase,
                         results := record_phase (results st) phase result,
                         lastStatus := Status (Result_StraceSummary result),
                         sb := sb'\<rparr>
           in if lastStatus st' \<noteq> StatusCompleted then st'
              else phase_loop run pkg st' rest))"

definition init_locals :: "'sb \<Rightarrow> ('sb, 'e, 'ss, 'fw) locals" where
  "init_locals sandbox =
     \<lparr>results = \<lparr>StraceSummary = Map.empty, FileWrites = Map.empty\<rparr>,
      lastRunPhase = [], lastStatus = [], lastError = None, sb = sandbox\<rparr>"

text \<open>
  \<open>RunDynamicAnalysis\<close> returns its four values; the model returns beside them the
  sandbox as the calls left it and the entry that was logged.
\<close>

definition RunDynamicAnalysis ::
  "('sb, 'cmd, 'e, 'ss, 'fw) Run \<Rightarrow> 'sb \<Rightarrow> 'cmd Pkg
    \<Rightarrow> (('ss, 'fw) DynamicAnalysisResults \<times> RunPhase \<times> Status \<times> 'e option) \<times> 'sb \<times> 'e log_entry" where
  "RunDynamicAnalysis run sandbox pkg =
     (let st = phase_loop run pkg (init_locals sandbox) (RunPhases pkg);
          logged = (case lastError st of
                      Some err \<Rightarrow> LogDynamicAnalysisError (lastRunPhase st) err
                    | None \<Rightarrow> LogDynamicAnalysisResult (lastRunPhase st) (lastStatus st))
      in ((results st, lastRunPhase st, lastStatus st, lastError st), sb st, logged))"

subsection \<open>Describing a run of phases\<close>

text \<open>
  A sandbox that remembers the commands it was asked to run: the given \<open>run\<close> on the
  first component, the commands in the order of the calls on the second.
\<close>

definition traced ::
  "('sb, 'cmd, 'e, 'ss, 'fw) Run \<Rightarrow> ('sb \<times> 'cmd list, 'cmd, 'e, 'ss, 'fw) Run" where
  "traced run = (\<lambda>(s, tr) c. case run s c of (r, s') \<Rightarrow> (r, (s', tr @ [c])))"

text \<open>
  \<open>all_complete run pkg s ps\<close>: invoking the sandbox for the phases \<open>ps\<close> in order,
  from sandbox \<open>s\<close>, returns for each a result with status completed; the value holds the
  phases with their results and the sandbox afterwards.
\<close>

fun all_complete ::
  "('sb, 'cmd, 'e, 'ss, 'fw) Run \<Rightarrow> 'cmd Pkg \<Rightarrow> 'sb \<Rightarrow> RunPhase list
    \<Rightarrow> ((RunPhase \<times> ('ss, 'fw) Result) list \<times> 'sb) option" where
  "all_complete run pkg s [] = Some ([], s)"
| "all_complete run pkg s (p # ps) =
     (case run s (Command pkg p) of
        (Inl err, s') \<Rightarrow> None
      | (Inr r, s') \<Rightarrow>
          if Status (Result_StraceSummary r) = StatusCompleted
          then (case all_complete run pkg s' ps of
                  None \<Rightarrow> None
                | Some (outs, s'') \<Rightarrow> Some ((p, r) # outs, s''))
          else None)"

text \<open>The aggregate that holds exactly the given outcomes, a later one replacing an earlier one of the same phase.\<close>

fun record_outcomes ::
  "('ss, 'fw) DynamicAnalysisResults \<Rightarrow> (RunPhase \<times> ('ss, 'fw) Result) list
    \<Rightarrow> ('ss, 'fw) DynamicAnalysisResults" where
  "record_outcomes res [] = res"
| "record_outcomes res ((p, r) # outs) = record_outcomes (record_phase res p r) outs"

definition empty_results :: "('ss, 'fw) DynamicAnalysisResults" where
  "empty_results = \<lparr>StraceSummary = Map.empty, FileWrites = Map.empty\<rparr>"

subsection \<open>Packages and sandboxes for the examples\<close>

definition demo_pkg :: "RunPhase list \<Rightarrow> string Pkg" where
  "demo_pkg phases = \<lparr>RunPhases = phases, Command = (\<lambda>phase. ''run-'' @ phase)\<rparr>"

definition demo_result :: "Status \<Rightarrow> nat \<Rightarrow> (string, nat) Result" where
  "demo_result status n =
     \<lparr>Result_StraceSummary = \<lparr>Status = status, other_fields = ''syscalls''\<rparr>,
      Result_FileWrites = n\<rparr>"

definition sandbox_B_unavailable :: "(nat, string, string, string, nat) Run" where
  "sandbox_B_unavailable n cmd =
     (if cmd = ''run-B'' then (Inl ''sandbox unavailable'', Suc n)
      else (Inr (demo_result StatusCompleted n), Suc n))"

definition sandbox_B_crashes :: "(nat, string, string, string, nat) Run" where
  "sandbox_B_crashes n cmd =
     (if cmd = ''run-B'' then (Inr (demo_result ''error'' n), Suc n)
      else (Inr (demo_result StatusCompleted n), Suc n))"

section \<open>Symbol extraction: \<open>parseJS\<close>\<close>

subsection \<open>Values and records\<close>

text \<open>
  A Go value of type \<open>any\<close>, as \<open>encoding/json\<close> decodes one (\<open>nil\<close>, \<open>bool\<close>,
  \<open>float64\<close>, \<open>string\<close>, \<open>[]any\<close>, \<open>map[string]any\<close>), and the one further
  shape \<open>parseJS\<close> itself stores in a literal: a pointer to a \<open>big.Int\<close>. The
  \<open>float64\<close> values are opaque.
\<close>

datatype 'f any =
  AnyNil
| AnyBool bool
| AnyFloat64 'f
| AnyString string
| AnySlice "'f any list"
| AnyMap "(string \<times> 'f any) list"
| AnyBigInt int

text \<open>What \<open>fmt.Sprintf("%T", v)\<close> prints for a value \<open>v\<close> of type \<open>any\<close>.\<close>

fun Sprintf_T :: "'f any \<Rightarrow> string" where
  "Sprintf_T AnyNil = ''<nil>''"
| "Sprintf_T (AnyBool b) = ''bool''"
| "Sprintf_T (AnyFloat64 x) = ''float64''"
| "Sprintf_T (AnyString s) = ''string''"
| "Sprintf_T (AnySlice vs) = ''[]interface {}''"
| "Sprintf_T (AnyMap kvs) = ''map[string]interface {}''"
| "Sprintf_T (AnyBigInt n) = ''*big.Int''"

text \<open>
  A run-time panic. The only ones \<open>parseJS\<close> can raise itself are failed type
  assertions \<open>v.(string)\<close>; the panic holds the dynamic type that was found.
\<close>

datatype panic = InterfaceConversion string

text \<open>The unchecked type assertion \<open>v.(string)\<close>.\<close>

fun assert_string :: "'f any \<Rightarrow> panic + string" where
  "assert_string (AnyString s) = Inr s"
| "assert_string v = Inl (InterfaceConversion (Sprintf_T v))"

text \<open>
  Indexing a \<open>map[string]any\<close>: a missing key (and every key of a nil map) gives the
  zero value of \<open>any\<close>, which is \<open>nil\<close>.
\<close>

definition index :: "(string \<rightharpoonup> 'f any) \<Rightarrow> string \<Rightarrow> 'f any" where
  "index m k = (case m k of None \<Rightarrow> AnyNil | Some v \<Rightarrow> v)"

text \<open>
  Modelled from the spec: the type \<open>SymbolType\<close> and its constants \<open>Identifier\<close>,
  \<open>Literal\<close>, \<open>Comment\<close>, \<open>Info\<close> and \<open>Error\<close> are declared outside the source at
  hand. The spec lists the five symbol kinds; any other tag is an unrecognised kind,
  kept with its text.
\<close>

datatype SymbolType = Identifier | Literal | Comment | Info | Error | Unrecognised string

record 'f parserOutputElement =
  SymbolType :: SymbolType
  SymbolSubtype :: string
  Data :: "'f any"
  Pos :: "int \<times> int"
  Extra :: "string \<rightharpoonup> 'f any"

text \<open>
  The result types \<open>parsedIdentifier\<close>, \<open>parsedLiteral[any]\<close>, \<open>parsedComment\<close> and
  \<open>parserOutput\<close>, with the fields \<open>parseJS\<close> assigns. The identifier classification
  \<open>token.IdentifierType\<close> is a type parameter.
\<close>

record 't parsedIdentifier =
  Type :: 't
  Name :: string
  Pos :: "int \<times> int"

record 'f parsedLiteral =
  Type :: string
  GoType :: string
  Value :: "'f any"
  RawValue :: string
  InArray :: bool
  Pos :: "int \<times> int"

record parsedComment =
  Type :: string
  Data :: string
  Pos :: "int \<times> int"

record ('t, 'f) parserOutput =
  ValidInput :: bool
  Identifiers :: "'t parsedIdentifier list"
  Literals :: "'f parsedLiteral list"
  Comments :: "parsedComment list"

text \<open>The zero value of \<open>parserOutput\<close>, which the named result \<open>result\<close> holds on entry.\<close>

definition zero_parserOutput :: "('t, 'f) parserOutput" where
  "zero_parserOutput = \<lparr>ValidInput = False, Identifiers = [], Literals = [], Comments = []\<rparr>"

text \<open>
  Modelled from the spec: the package-level value \<open>InvalidInput\<close> is declared outside the
  source at hand. The spec describes what is returned on the sentinel exit code as a
  result flagged invalid with no decoded content.
\<close>

definition InvalidInput :: "('t, 'f) parserOutput" where
  "InvalidInput = \<lparr>ValidInput = False, Identifiers = [], Literals = [], Comments = []\<rparr>"

record ParserConfig =
  ParserPath :: string

subsection \<open>Errors and the parser process\<close>

text \<open>
  Go error values, as far as \<open>parseJS\<close> tells them apart: an \<open>*exec.ExitError\<close> with
  its exit code and captured standard error, an error made by \<open>fmt.Errorf\<close> from a
  format and a cause, and any other error.
\<close>

datatype error =
  ExitError (ExitCode: int) (Stderr: string)
| Errorf string error
| OtherError string

definition syntaxErrorExitCode :: int where
  "syntaxErrorExitCode = 33"

text \<open>
  What the command made by \<open>exec.Command\<close> does when \<open>runParser\<close> uses it: the error
  of \<open>StdinPipe\<close>, of writing the source to the pipe and of closing it (\<open>None\<close> is
  \<open>nil\<close>), and the bytes and error that \<open>Output\<close> returns, given what was written to
  standard input (\<open>None\<close> when nothing was piped).
\<close>

record Cmd =
  StdinPipe :: "error option"
  Write :: "string \<Rightarrow> error option"
  Close :: "error option"
  Output :: "string option \<Rightarrow> string \<times> error option"

text \<open>
  What lies outside the source at hand and is used by it: process creation, the JSON
  decoder into \<open>[]parserOutputElement\<close>, and from package \<open>token\<close> the function
  \<open>CheckIdentifierType\<close> with the constants \<open>Other\<close> and \<open>Unknown\<close>.
\<close>

record ('t, 'f) world =
  exec_Command :: "string \<Rightarrow> string list \<Rightarrow> Cmd"
  json_Decode :: "string \<Rightarrow> error + 'f parserOutputElement list"
  CheckIdentifierType :: "string \<Rightarrow> 't"
  Other :: 't
  Unknown :: 't

subsection \<open>\<open>SetString\<close> of \<open>math/big\<close>\<close>

text \<open>
  The library method \<open>SetString(s, base)\<close> of \<open>big.Int\<close> in package \<open>math/big\<close>, which
  \<open>parseJS\<close> calls with base 0. It is written after the library's scanner: an optional
  sign; for base 0 a prefix \<open>0b\<close>, \<open>0o\<close>, \<open>0x\<close> (either case) or a leading \<open>0\<close>
  selecting base 2, 8, 16 or 8, and base 10 without a prefix; then the digits, where for
  base 0 an underscore may stand after the prefix or between digits. The whole text must
  be consumed. \<open>None\<close> is the failed call.
\<close>

text \<open>What the scanner remembers of the previous character: a separator, a digit, or anything else.\<close>

datatype prev = PrevSeparator | PrevDigit | PrevOther

datatype prefix = NoPrefix | Prefix_b | Prefix_o | Prefix_x | Prefix_0

text \<open>
  The value of a character as a digit in base \<open>b\<close>; 63 (one more than the largest base)
  for a character that is no digit. Letters count from 10, upper case like lower case
  up to base 36 and from 36 on above it.
\<close>

definition digit_value :: "nat \<Rightarrow> char \<Rightarrow> nat" where
  "digit_value b ch =
     (let c = (of_char ch :: nat)
      in if 48 \<le> c \<and> c \<le> 57 then c - 48
         else if 97 \<le> c \<and> c \<le> 122 then c - 97 + 10
         else if 65 \<le> c \<and> c \<le> 90 then (if b \<le> 36 then c - 65 + 10 else c - 65 + 36)
         else 63)"

text \<open>
  The digit loop: it stops at the end of the text or at the first character that is no
  digit of base \<open>b\<close>, which it leaves unread. It returns the previous character, whether
  a separator was misplaced, the number of digits, the value and the unread text.
\<close>

fun scan_digits ::
  "bool \<Rightarrow> nat \<Rightarrow> prev \<Rightarrow> bool \<Rightarrow> nat \<Rightarrow> nat \<Rightarrow> string \<Rightarrow> prev \<times> bool \<times> nat \<times> nat \<times> string" where
  "scan_digits base0 b prv invalSep count z [] = (prv, invalSep, count, z, [])"
| "scan_digits base0 b prv invalSep count z (ch # rest) =
     (if ch = CHR ''_'' \<and> base0
      then scan_digits base0 b PrevSeparator (if prv = PrevDigit then invalSep else True) count z rest
      else if b \<le> digit_value b ch then (prv, invalSep, count, z, ch # rest)
      else scan_digits base0 b PrevDigit invalSep (count + 1) (z * b + digit_value b ch) rest)"

text \<open>
  The start of the scan: the actual base, the prefix found, the previous character, the
  digits counted so far (a lone \<open>0\<close> counts as one) and the text still to be read.
\<close>

definition scan_prefix :: "int \<Rightarrow> string \<Rightarrow> nat \<times> prefix \<times> prev \<times> nat \<times> string" where
  "scan_prefix base s =
     (if base = 0 then
        (case s of
           [] \<Rightarrow> (10, NoPrefix, PrevOther, 0, [])
         | ch # rest \<Rightarrow>
             if ch = CHR ''0'' then
               (case rest of
                  [] \<Rightarrow> (10, NoPrefix, PrevDigit, 1, [])
                | ch' # rest' \<Rightarrow>
                    if ch' = CHR ''b'' \<or> ch' = CHR ''B'' then (2, Prefix_b, PrevDigit, 0, rest')
                    else if ch' = CHR ''o'' \<or> ch' = CHR ''O'' then (8, Prefix_o, PrevDigit, 0, rest')
                    else if ch' = CHR ''x'' \<or> ch' = CHR ''X'' then (16, Prefix_x, PrevDigit, 0, rest')
                    else (8, Prefix_0, PrevDigit, 0, rest))
             else (10, NoPrefix, PrevOther, 0, s))
      else (nat base, NoPrefix, PrevOther, 0, s))"

text \<open>The scan of an unsigned number: its value unless the scan fails, and the unread text.\<close>

definition nat_scan :: "int \<Rightarrow> string \<Rightarrow> nat option \<times> string" where
  "nat_scan base s =
     (case scan_prefix base s of
        (b, pre, prv, count, rest) \<Rightarrow>
          (case scan_digits (base = 0) b prv False count 0 rest of
             (prv', invalSep, count', z, unread) \<Rightarrow>
               if invalSep \<or> prv' = PrevSeparator then (None, unread)
               else if count' = 0 then
                 (if pre = Prefix_0 then (Some 0, unread) else (None, unread))
               else (Some z, unread)))"

text \<open>
  \<open>SetString\<close> itself. The library panics for a base other than 0 and 2 to 62; the
  program passes 0, and the model gives \<open>None\<close> for such a base.
\<close>

definition SetString :: "string \<Rightarrow> int \<Rightarrow> int option" where
  "SetString s base =
     (if 0 < base \<and> base < 2 \<or> base < 0 \<or> 62 < base then None
      else
        (case s of
           [] \<Rightarrow> None
         | ch # rest \<Rightarrow>
             (let neg = (ch = CHR ''-'');
                  body = (if ch = CHR ''-'' \<or> ch = CHR ''+'' then rest else s)
              in case nat_scan base body of
                   (Some n, []) \<Rightarrow> Some (if neg then - int n else int n)
                 | _ \<Rightarrow> None)))"

subsection \<open>\<open>runParser\<close>\<close>

definition runParser :: "('t, 'f) world \<Rightarrow> string \<Rightarrow> string \<Rightarrow> string \<Rightarrow> string \<times> error option" where
  "runParser w parserPath jsFilePath jsSource =
     (let nodeArgs = [parserPath] @ (if length jsFilePath > 0 then [jsFilePath] else []);
          cmd = exec_Command w ''node'' nodeArgs;
          run_Output = (\<lambda>stdin. case Output cmd stdin of
                           (out, Some err) \<Rightarrow> ([], Some err)
                         | (out, None) \<Rightarrow> (out, None))
      in if length jsFilePath = 0 then
           (case StdinPipe cmd of
              Some pipeErr \<Rightarrow> ([], Some (Errorf ''runParser failed to create pipe: %v'' pipeErr))
            | None \<Rightarrow>
                (case Write cmd jsSource of
                   Some pipeErr \<Rightarrow>
                     ([], Some (Errorf ''runParser failed to write source string to pipe: %w'' pipeErr))
                 | None \<Rightarrow>
                     (case Close cmd of
                        Some pipeErr \<Rightarrow>
                          ([], Some (Errorf ''runParser failed to close pipe: %w'' pipeErr))
                      | None \<Rightarrow> run_Output (Some jsSource))))
         else run_Output None)"

subsection \<open>\<open>parseJS\<close>\<close>

text \<open>
  Lines 113 to 130: the literal built from a \<open>Literal\<close> element. The assertion
  \<open>element.Extra["raw"].(string)\<close> is unchecked and panics; the later
  \<open>literal.Value.(string)\<close> is the checked form and does not.
\<close>

definition parse_literal :: "'f parserOutputElement \<Rightarrow> panic + 'f parsedLiteral" where
  "parse_literal element =
     (case assert_string (index (Extra element) ''raw'') of
        Inl p \<Rightarrow> Inl p
      | Inr raw \<Rightarrow>
          (let literal = \<lparr>parsedLiteral.Type = SymbolSubtype element,
                          GoType = Sprintf_T (parserOutputElement.Data element),
                          Value = parserOutputElement.Data element,
                          RawValue = raw,
                          InArray = (index (Extra element) ''array'' = AnyBool True),
                          parsedLiteral.Pos = parserOutputElement.Pos element\<rparr>
           in if parsedLiteral.Type literal = ''Numeric'' \<and> GoType literal = ''string'' then
                (case Value literal of
                   AnyString intAsString \<Rightarrow>
                     (case SetString intAsString 0 of
                        Some bigInt \<Rightarrow> Inr (literal\<lparr>Value := AnyBigInt bigInt, GoType := ''big.Int''\<rparr>)
                      | None \<Rightarrow> Inr literal)
                 | _ \<Rightarrow> Inr literal)
              else Inr literal))"

text \<open>
  The body of the loop over \<open>storage\<close>. The state is the result so far and the
  warnings written by \<open>log.Warn\<close>.
\<close>

definition convert_element ::
  "('t, 'f) world \<Rightarrow> ('t, 'f) parserOutput \<times> string list \<Rightarrow> 'f parserOutputElement
    \<Rightarrow> panic + (('t, 'f) parserOutput \<times> string list)" where
  "convert_element w st element =
     (case st of (result, warnings) \<Rightarrow>
     (case SymbolType element of
        Identifier \<Rightarrow>
          (let symbolSubtype = CheckIdentifierType w (SymbolSubtype element)
           in if symbolSubtype = Other w \<or> symbolSubtype = Unknown w then Inr (result, warnings)
              else (case assert_string (parserOutputElement.Data element) of
                      Inl p \<Rightarrow> Inl p
                    | Inr name \<Rightarrow>
                        Inr (result\<lparr>Identifiers := Identifiers result @
                               [\<lparr>parsedIdentifier.Type = CheckIdentifierType w (SymbolSubtype element),
                                 Name = name,
                                 parsedIdentifier.Pos = parserOutputElement.Pos element\<rparr>]\<rparr>,
                             warnings)))
      | Literal \<Rightarrow>
          (case parse_literal element of
             Inl p \<Rightarrow> Inl p
           | Inr literal \<Rightarrow> Inr (result\<lparr>Literals := Literals result @ [literal]\<rparr>, warnings))
      | Comment \<Rightarrow>
          (case assert_string (parserOutputElement.Data element) of
             Inl p \<Rightarrow> Inl p
           | Inr text \<Rightarrow>
               Inr (result\<lparr>Comments := Comments result @
                      [\<lparr>parsedComment.Type = SymbolSubtype element,
                        parsedComment.Data = text,
                        parsedComment.Pos = parserOutputElement.Pos element\<rparr>]\<rparr>,
                    warnings))
      | Info \<Rightarrow> Inr (result, warnings)
      | Error \<Rightarrow> Inr (result, warnings)
      | Unrecognised tag \<Rightarrow>
          Inr (result, warnings @ [''parseJS: unrecognised symbol type '' @ tag])))"

fun convert_elements ::
  "('t, 'f) world \<Rightarrow> ('t, 'f) parserOutput \<times> string list \<Rightarrow> 'f parserOutputElement list
    \<Rightarrow> panic + (('t, 'f) parserOutput \<times> string list)" where
  "convert_elements w st [] = Inr st"
| "convert_elements w st (element # rest) =
     (case convert_element w st element of
        Inl p \<Rightarrow> Inl p
      | Inr st' \<Rightarrow> convert_elements w st' rest)"

text \<open>
  \<open>parseJS\<close> either panics or returns its three values; the warnings logged on the way
  are returned beside them.
\<close>

definition parseJS ::
  "('t, 'f) world \<Rightarrow> ParserConfig \<Rightarrow> string \<Rightarrow> string
    \<Rightarrow> panic + ((('t, 'f) parserOutput \<times> string \<times> error option) \<times> string list)" where
  "parseJS w parserConfig filePath sourceString =
     (case runParser w (ParserPath parserConfig) filePath sourceString of
        (parserOutput, Some err) \<Rightarrow>
          (case err of
             ExitError code stderr \<Rightarrow>
               if code = syntaxErrorExitCode then Inr ((InvalidInput, [], None), [])
               else Inr ((zero_parserOutput, stderr, Some err), [])
           | _ \<Rightarrow> Inr ((zero_parserOutput, parserOutput, Some err), []))
      | (parserOutput, None) \<Rightarrow>
          (case json_Decode w parserOutput of
             Inl err \<Rightarrow> Inr ((zero_parserOutput, parserOutput, Some err), [])
           | Inr storage \<Rightarrow>
               (case convert_elements w (zero_parserOutput\<lparr>ValidInput := True\<rparr>, []) storage of
                  Inl p \<Rightarrow> Inl p
                | Inr (result, warnings) \<Rightarrow> Inr ((result, parserOutput, None), warnings))))"

subsection \<open>Describing records\<close>

fun is_string :: "'f any \<Rightarrow> bool" where
  "is_string (AnyString s) = True"
| "is_string v = False"

text \<open>
  A record is well shaped when the text that its kind requires is text: the payload of
  a kept identifier and of a comment, and the \<open>raw\<close> attribute of a literal.
\<close>

definition well_shaped :: "('t, 'f) world \<Rightarrow> 'f parserOutputElement \<Rightarrow> bool" where
  "well_shaped w element =
     (case SymbolType element of
        Identifier \<Rightarrow>
          CheckIdentifierType w (SymbolSubtype element) = Other w \<or>
          CheckIdentifierType w (SymbolSubtype element) = Unknown w \<or>
          is_string (parserOutputElement.Data element)
      | Literal \<Rightarrow> is_string (index (Extra element) ''raw'')
      | Comment \<Rightarrow> is_string (parserOutputElement.Data element)
      | _ \<Rightarrow> True)"

text \<open>An identifier record is kept when its classification is neither \<open>Other\<close> nor \<open>Unknown\<close>.\<close>

definition kept_identifier :: "('t, 'f) world \<Rightarrow> 'f parserOutputElement \<Rightarrow> bool" where
  "kept_identifier w element =
     (SymbolType element = Identifier \<and>
      CheckIdentifierType w (SymbolSubtype element) \<noteq> Other w \<and>
      CheckIdentifierType w (SymbolSubtype element) \<noteq> Unknown w)"

fun string_of :: "'f any \<Rightarrow> string" where
  "string_of (AnyString s) = s"
| "string_of v = []"

definition identifier_of :: "('t, 'f) world \<Rightarrow> 'f parserOutputElement \<Rightarrow> 't parsedIdentifier" where
  "identifier_of w element =
     \<lparr>parsedIdentifier.Type = CheckIdentifierType w (SymbolSubtype element),
      Name = string_of (parserOutputElement.Data element),
      parsedIdentifier.Pos = parserOutputElement.Pos element\<rparr>"

text \<open>
  Reading a text as a base-10 integer, as the spec words it: the text is a non-empty
  run of decimal digits, without a leading zero unless it is \<open>0\<close> itself, and its
  value is the usual one.
\<close>

definition is_digit :: "char \<Rightarrow> bool" where
  "is_digit ch = (48 \<le> (of_char ch :: nat) \<and> (of_char ch :: nat) \<le> 57)"

definition decimal_text :: "string \<Rightarrow> bool" where
  "decimal_text s = (s \<noteq> [] \<and> list_all is_digit s \<and> (hd s = CHR ''0'' \<longrightarrow> s = ''0''))"

definition decimal_value :: "string \<Rightarrow> nat" where
  "decimal_value s = foldl (\<lambda>n ch. 10 * n + (of_char ch - 48)) 0 s"

text \<open>
  The value a literal record is stored with: the big integer for a \<open>Numeric\<close> record
  whose payload is text that \<open>SetString\<close> reads in base 0, the payload otherwise.
\<close>

definition stored_value :: "'f parserOutputElement \<Rightarrow> 'f any" where
  "stored_value element =
     (case parserOutputElement.Data element of
        AnyString text \<Rightarrow>
          (if SymbolSubtype element = ''Numeric''
           then (case SetString text 0 of Some n \<Rightarrow> AnyBigInt n | None \<Rightarrow> AnyString text)
           else AnyString text)
      | v \<Rightarrow> v)"

text \<open>The literal that a literal record with a text \<open>raw\<close> attribute is parsed to.\<close>

definition literal_of :: "'f parserOutputElement \<Rightarrow> 'f parsedLiteral" where
  "literal_of element =
     \<lparr>parsedLiteral.Type = SymbolSubtype element,
      GoType = (if stored_value element = parserOutputElement.Data element
                then Sprintf_T (parserOutputElement.Data element) else ''big.Int''),
      Value = stored_value element,
      RawValue = string_of (index (Extra element) ''raw''),
      InArray = (Extra element ''array'' = Some (AnyBool True)),
      parsedLiteral.Pos = parserOutputElement.Pos element\<rparr>"

definition is_Literal :: "'f parserOutputElement \<Rightarrow> bool" where
  "is_Literal element = (SymbolType element = Literal)"

subsection \<open>A parser process and library for the examples\<close>

text \<open>
  A process whose pipe never fails and whose \<open>Output\<close> is given; a decoder that
  returns the given records; and a classification table with two recognised roles.
\<close>

definition demo_world ::
  "string \<times> error option \<Rightarrow> int parserOutputElement list \<Rightarrow> (string, int) world" where
  "demo_world out storage =
     \<lparr>exec_Command = (\<lambda>name args.
        \<lparr>StdinPipe = None, Write = (\<lambda>src. None), Close = None, Output = (\<lambda>stdin. out)\<rparr>),
      json_Decode = (\<lambda>text. Inr storage),
      CheckIdentifierType = (\<lambda>subtype.
        if subtype = ''Function'' \<or> subtype = ''Variable'' \<or> subtype = ''Other'' then subtype
        else ''Unknown''),
      Other = ''Other'',
      Unknown = ''Unknown''\<rparr>"

definition demo_element ::
  "SymbolType \<Rightarrow> string \<Rightarrow> int any \<Rightarrow> (string \<times> int any) list \<Rightarrow> int parserOutputElement" where
  "demo_element kind subtype payload extra =
     \<lparr>SymbolType = kind, SymbolSubtype = subtype, Data = payload, Pos = (1, 1),
      Extra = map_of extra\<rparr>"

section \<open>Properties of the phased dynamic analysis\<close>

subsection \<open>Facts about the walk\<close>

lemma record_phase_dom:
  "dom (StraceSummary (record_phase res p r)) = insert p (dom (StraceSummary res))"
  "dom (FileWrites (record_phase res p r)) = insert p (dom (FileWrites res))"
  by (simp_all add: record_phase_def)

lemma phase_loop_dom_eq:
  "dom (StraceSummary (results st)) = dom (FileWrites (results st))
   \<Longrightarrow> dom (StraceSummary (results (phase_loop run pkg st ps)))
       = dom (FileWrites (results (phase_loop run pkg st ps)))"
proof (induction ps arbitrary: st)
  case Nil
  then show ?case by simp
next
  case (Cons p ps)
  obtain r s' where call: "run (sb st) (Command pkg p) = (r, s')"
    by (cases "run (sb st) (Command pkg p)")
  show ?case
  proof (cases r)
    case (Inl err)
    with call Cons.prems show ?thesis by simp
  next
    case (Inr result)
    let ?st' = "st\<lparr>lastRunPhase := p,
                   results := record_phase (results st) p result,
                   lastStatus := Status (Result_StraceSummary result),
                   sb := s'\<rparr>"
    have inv: "dom (StraceSummary (results ?st')) = dom (FileWrites (results ?st'))"
      using Cons.prems by (simp add: record_phase_dom)
    show ?thesis
    proof (cases "Status (Result_StraceSummary result) = StatusCompleted")
      case True
      with call Inr Cons.IH [OF inv] show ?thesis by (simp add: Let_def)
    next
      case False
      with call Inr inv show ?thesis by (simp add: Let_def)
    qed
  qed
qed

lemma all_complete_phases:
  "all_complete run pkg s ps = Some (outs, s1) \<Longrightarrow> map fst outs = ps"
  by (induction ps arbitrary: s outs)
     (auto split: prod.splits sum.splits if_splits option.splits)

lemma record_outcomes_append:
  "record_outcomes res (xs @ ys) = record_outcomes (record_outcomes res xs) ys"
  by (induction xs arbitrary: res) auto

lemma record_outcomes_dom_StraceSummary:
  "dom (StraceSummary (record_outcomes res outs)) = dom (StraceSummary res) \<union> fst ` set outs"
proof (induction outs arbitrary: res)
  case Nil
  show ?case by simp
next
  case (Cons a outs)
  obtain q r where a: "a = (q, r)" by (cases a)
  show ?case unfolding a by (simp add: Cons.IH record_phase_dom)
qed

lemma record_outcomes_dom_FileWrites:
  "dom (FileWrites (record_outcomes res outs)) = dom (FileWrites res) \<union> fst ` set outs"
proof (induction outs arbitrary: res)
  case Nil
  show ?case by simp
next
  case (Cons a outs)
  obtain q r where a: "a = (q, r)" by (cases a)
  show ?case unfolding a by (simp add: Cons.IH record_phase_dom)
qed

lemma record_outcomes_notin:
  "p \<notin> fst ` set outs \<Longrightarrow>
   StraceSummary (record_outcomes res outs) p = StraceSummary res p \<and>
   FileWrites (record_outcomes res outs) p = FileWrites res p"
  by (induction outs arbitrary: res) (auto simp: record_phase_def)

lemma record_outcomes_lookup:
  "distinct (map fst outs) \<Longrightarrow> (p, r) \<in> set outs \<Longrightarrow>
   StraceSummary (record_outcomes res outs) p = Some (Result_StraceSummary r) \<and>
   FileWrites (record_outcomes res outs) p = Some (Result_FileWrites r)"
proof (induction outs arbitrary: res)
  case Nil
  then show ?case by simp
next
  case (Cons a outs)
  obtain q r' where a: "a = (q, r')" by (cases a)
  show ?case
  proof (cases "(p, r) = a")
    case True
    with Cons.prems a have "p \<notin> fst ` set outs" by auto
    from record_outcomes_notin [OF this, of "record_phase res q r'"] True a
    show ?thesis by (simp add: record_phase_def)
  next
    case False
    with Cons.prems have "(p, r) \<in> set outs" "distinct (map fst outs)" by auto
    from Cons.IH [OF this(2) this(1)] a show ?thesis by simp
  qed
qed

lemma record_outcomes_last:
  "StraceSummary (record_outcomes res (outs @ [(p, r)])) p = Some (Result_StraceSummary r) \<and>
   FileWrites (record_outcomes res (outs @ [(p, r)])) p = Some (Result_FileWrites r)"
  by (simp add: record_outcomes_append record_phase_def)

lemma phase_loop_prefix:
  "all_complete run pkg (sb st) pre = Some (outs, s1) \<Longrightarrow>
   phase_loop run pkg st (pre @ rest) =
   phase_loop run pkg
     (st\<lparr>lastRunPhase := last (lastRunPhase st # pre),
         results := record_outcomes (results st) outs,
         lastStatus := (if pre = [] then lastStatus st else StatusCompleted),
         sb := s1\<rparr>) rest"
proof (induction pre arbitrary: st outs)
  case Nil
  then have "s1 = sb st" "outs = []" by simp_all
  then show ?case by simp
next
  case (Cons p pre)
  from Cons.prems obtain r s' outs' where
    call: "run (sb st) (Command pkg p) = (Inr r, s')" and
    compl: "Status (Result_StraceSummary r) = StatusCompleted" and
    rest: "all_complete run pkg s' pre = Some (outs', s1)" and
    outs: "outs = (p, r) # outs'"
    by (auto split: prod.splits sum.splits if_splits option.splits)
  let ?st' = "st\<lparr>lastRunPhase := p,
                 results := record_phase (results st) p r,
                 lastStatus := Status (Result_StraceSummary r),
                 sb := s'\<rparr>"
  have "all_complete run pkg (sb ?st') pre = Some (outs', s1)"
    using rest by simp
  from Cons.IH [OF this]
  show ?case using call compl outs by (simp add: Let_def)
qed

lemma all_complete_traced:
  "all_complete (traced run) pkg (s, tr) ps =
   map_option (\<lambda>(outs, s1). (outs, (s1, tr @ map (Command pkg) ps))) (all_complete run pkg s ps)"
  by (induction ps arbitrary: s tr)
     (auto simp: traced_def split: prod.splits sum.splits option.splits)

lemma traced_call:
  "run s c = (r, s') \<Longrightarrow> traced run (s, tr) c = (r, (s', tr @ [c]))"
  by (simp add: traced_def)

lemma phase_loop_from_init:
  "all_complete run pkg sandbox pre = Some (outs, s1) \<Longrightarrow>
   phase_loop run pkg (init_locals sandbox) (pre @ rest) =
   phase_loop run pkg
     \<lparr>results = record_outcomes empty_results outs,
      lastRunPhase = last ([] # pre),
      lastStatus = (if pre = [] then [] else StatusCompleted),
      lastError = None, sb = s1\<rparr> rest"
  using phase_loop_prefix [of run pkg "init_locals sandbox" pre outs s1 rest]
  by (simp add: init_locals_def empty_results_def)

lemma walk_infrastructure_failure:
  assumes phases: "RunPhases pkg = pre @ P # post"
    and before: "all_complete run pkg sandbox pre = Some (outs, s1)"
    and fails: "run s1 (Command pkg P) = (Inl err, s2)"
  shows "RunDynamicAnalysis run sandbox pkg =
    ((record_outcomes empty_results outs, P, [], Some err), s2, LogDynamicAnalysisError P err)"
  using phase_loop_from_init [OF before, of "P # post"] fails
  by (simp add: RunDynamicAnalysis_def phases)

lemma walk_non_completion:
  assumes phases: "RunPhases pkg = pre @ P # post"
    and before: "all_complete run pkg sandbox pre = Some (outs, s1)"
    and returns: "run s1 (Command pkg P) = (Inr r, s2)"
    and status: "Status (Result_StraceSummary r) \<noteq> StatusCompleted"
  shows "RunDynamicAnalysis run sandbox pkg =
    ((record_outcomes empty_results (outs @ [(P, r)]), P, Status (Result_StraceSummary r), None),
     s2, LogDynamicAnalysisResult P (Status (Result_StraceSummary r)))"
  using phase_loop_from_init [OF before, of "P # post"] returns status
  by (simp add: RunDynamicAnalysis_def phases Let_def record_outcomes_append)

lemma walk_all_complete:
  assumes before: "all_complete run pkg sandbox (RunPhases pkg) = Some (outs, s1)"
  shows "RunDynamicAnalysis run sandbox pkg =
    ((record_outcomes empty_results outs, last ([] # RunPhases pkg),
      (if RunPhases pkg = [] then [] else StatusCompleted), None),
     s1, LogDynamicAnalysisResult (last ([] # RunPhases pkg))
           (if RunPhases pkg = [] then [] else StatusCompleted))"
  using phase_loop_from_init [OF before, of "[]"]
  by (simp add: RunDynamicAnalysis_def)

subsection \<open>The claims about \<open>RunDynamicAnalysis\<close>\<close>

text \<open>
  Claim C3. Let the phases be \<open>pre @ P # post\<close>, let every phase of \<open>pre\<close> complete,
  and let the invocation for \<open>P\<close> fail with an error. Then \<open>RunDynamicAnalysis\<close>
  returns the aggregate of the phases of \<open>pre\<close> alone (both maps have the key set
  \<open>set pre\<close>; \<open>P\<close> has no entry unless it also occurs in \<open>pre\<close>), \<open>P\<close> as the
  last phase, the empty status and the error; and the commands the sandbox was asked to
  run are those of \<open>pre\<close> followed by that of \<open>P\<close>, so no phase of \<open>post\<close> is attempted.
\<close>

theorem RunDynamicAnalysis_infrastructure_failure:
  assumes phases: "RunPhases pkg = pre @ P # post"
    and before: "all_complete run pkg sandbox pre = Some (outs, s1)"
    and fails: "run s1 (Command pkg P) = (Inl err, s2)"
  shows "RunDynamicAnalysis run sandbox pkg =
           ((record_outcomes empty_results outs, P, [], Some err), s2,
            LogDynamicAnalysisError P err)
       \<and> map fst outs = pre
       \<and> dom (StraceSummary (record_outcomes empty_results outs)) = set pre
       \<and> dom (FileWrites (record_outcomes empty_results outs)) = set pre
       \<and> (P \<notin> set pre \<longrightarrow>
            StraceSummary (record_outcomes empty_results outs) P = None \<and>
            FileWrites (record_outcomes empty_results outs) P = None)
       \<and> (distinct pre \<longrightarrow>
            (\<forall>(p, r) \<in> set outs.
               StraceSummary (record_outcomes empty_results outs) p = Some (Result_StraceSummary r) \<and>
               FileWrites (record_outcomes empty_results outs) p = Some (Result_FileWrites r)))
       \<and> snd (fst (snd (RunDynamicAnalysis (traced run) (sandbox, []) pkg))) =
            map (Command pkg) (pre @ [P])"
proof -
  have held: "distinct pre \<longrightarrow>
            (\<forall>(p, r) \<in> set outs.
               StraceSummary (record_outcomes empty_results outs) p = Some (Result_StraceSummary r) \<and>
               FileWrites (record_outcomes empty_results outs) p = Some (Result_FileWrites r))"
    using record_outcomes_lookup [of outs _ _ empty_results] all_complete_phases [OF before]
    by auto
  have ret: "RunDynamicAnalysis run sandbox pkg =
           ((record_outcomes empty_results outs, P, [], Some err), s2,
            LogDynamicAnalysisError P err)"
    by (rule walk_infrastructure_failure [OF phases before fails])
  have ph: "map fst outs = pre"
    by (rule all_complete_phases [OF before])
  have img: "fst ` set outs = set pre"
    using ph by (metis set_map)
  have ds: "dom (StraceSummary (record_outcomes empty_results outs)) = set pre"
    by (simp add: record_outcomes_dom_StraceSummary img empty_results_def)
  have df: "dom (FileWrites (record_outcomes empty_results outs)) = set pre"
    by (simp add: record_outcomes_dom_FileWrites img empty_results_def)
  have absent: "P \<notin> set pre \<longrightarrow>
           StraceSummary (record_outcomes empty_results outs) P = None \<and>
           FileWrites (record_outcomes empty_results outs) P = None"
    using ds df by (metis domIff)
  have tb: "all_complete (traced run) pkg (sandbox, []) pre =
              Some (outs, (s1, map (Command pkg) pre))"
    by (simp add: all_complete_traced before)
  have tf: "traced run (s1, map (Command pkg) pre) (Command pkg P) =
              (Inl err, (s2, map (Command pkg) pre @ [Command pkg P]))"
    using fails by (simp add: traced_def)
  have tr: "snd (fst (snd (RunDynamicAnalysis (traced run) (sandbox, []) pkg))) =
           map (Command pkg) (pre @ [P])"
    by (simp add: walk_infrastructure_failure [OF phases tb tf])
  from ret ph ds df absent held tr show ?thesis by blast
qed

theorem RunDynamicAnalysis_infrastructure_failure_witness:
  "RunPhases (demo_pkg [''A'', ''B'']) = [''A''] @ ''B'' # []
   \<and> all_complete sandbox_B_unavailable (demo_pkg [''A'', ''B'']) 0 [''A'']
       = Some ([(''A'', demo_result StatusCompleted 0)], 1)
   \<and> sandbox_B_unavailable 1 (Command (demo_pkg [''A'', ''B'']) ''B'')
       = (Inl ''sandbox unavailable'', 2)
   \<and> RunDynamicAnalysis sandbox_B_unavailable 0 (demo_pkg [''A'', ''B'']) =
       ((record_outcomes empty_results [(''A'', demo_result StatusCompleted 0)],
         ''B'', [], Some ''sandbox unavailable''), 2,
        LogDynamicAnalysisError ''B'' ''sandbox unavailable'')
   \<and> StraceSummary (record_outcomes empty_results [(''A'', demo_result StatusCompleted 0)]) ''B''
       = None
   \<and> snd (fst (snd (RunDynamicAnalysis (traced sandbox_B_unavailable) (0, [])
         (demo_pkg [''A'', ''B''])))) = [''run-A'', ''run-B'']"
proof -
  have phases: "RunPhases (demo_pkg [''A'', ''B'']) = [''A''] @ ''B'' # []"
    by (simp add: demo_pkg_def)
  have before: "all_complete sandbox_B_unavailable (demo_pkg [''A'', ''B'']) 0 [''A'']
       = Some ([(''A'', demo_result StatusCompleted 0)], 1)"
    by (simp add: demo_pkg_def sandbox_B_unavailable_def demo_result_def)
  have fails: "sandbox_B_unavailable 1 (Command (demo_pkg [''A'', ''B'']) ''B'')
       = (Inl ''sandbox unavailable'', 2)"
    by (simp add: demo_pkg_def sandbox_B_unavailable_def)
  have cmds: "map (Command (demo_pkg [''A'', ''B''])) ([''A''] @ [''B'']) = [''run-A'', ''run-B'']"
    by (simp add: demo_pkg_def)
  show ?thesis
    using RunDynamicAnalysis_infrastructure_failure [OF phases before fails]
    by (simp only: phases before fails cmds) simp
qed

text \<open>
  Claim C4. Let the phases be \<open>pre @ P # post\<close>, let every phase of \<open>pre\<close> complete,
  and let the invocation for \<open>P\<close> return a result whose status is not completed. Then
  \<open>RunDynamicAnalysis\<close> returns the aggregate of the phases of \<open>pre\<close> and of \<open>P\<close>
  (the entry of \<open>P\<close> is the syscall summary and the file writes of its result), \<open>P\<close>
  as the last phase, the status of \<open>P\<close> and no error; and the commands the sandbox was
  asked to run are those of \<open>pre\<close> followed by that of \<open>P\<close>.
\<close>

theorem RunDynamicAnalysis_non_completion:
  assumes phases: "RunPhases pkg = pre @ P # post"
    and before: "all_complete run pkg sandbox pre = Some (outs, s1)"
    and returns: "run s1 (Command pkg P) = (Inr r, s2)"
    and status: "Status (Result_StraceSummary r) \<noteq> StatusCompleted"
  shows "RunDynamicAnalysis run sandbox pkg =
           ((record_outcomes empty_results (outs @ [(P, r)]), P,
             Status (Result_StraceSummary r), None), s2,
            LogDynamicAnalysisResult P (Status (Result_StraceSummary r)))
       \<and> map fst outs = pre
       \<and> dom (StraceSummary (record_outcomes empty_results (outs @ [(P, r)]))) = set pre \<union> {P}
       \<and> dom (FileWrites (record_outcomes empty_results (outs @ [(P, r)]))) = set pre \<union> {P}
       \<and> StraceSummary (record_outcomes empty_results (outs @ [(P, r)])) P
            = Some (Result_StraceSummary r)
       \<and> FileWrites (record_outcomes empty_results (outs @ [(P, r)])) P
            = Some (Result_FileWrites r)
       \<and> (distinct (pre @ [P]) \<longrightarrow>
            (\<forall>(p, r') \<in> set outs.
               StraceSummary (record_outcomes empty_results (outs @ [(P, r)])) p
                 = Some (Result_StraceSummary r') \<and>
               FileWrites (record_outcomes empty_results (outs @ [(P, r)])) p
                 = Some (Result_FileWrites r')))
       \<and> snd (fst (snd (RunDynamicAnalysis (traced run) (sandbox, []) pkg))) =
            map (Command pkg) (pre @ [P])"
proof -
  let ?res = "record_outcomes empty_results (outs @ [(P, r)])"
  have ret: "RunDynamicAnalysis run sandbox pkg =
           ((?res, P, Status (Result_StraceSummary r), None), s2,
            LogDynamicAnalysisResult P (Status (Result_StraceSummary r)))"
    by (rule walk_non_completion [OF phases before returns status])
  have ph: "map fst outs = pre"
    by (rule all_complete_phases [OF before])
  have img: "fst ` set outs = set pre"
    using ph by (metis set_map)
  have ds: "dom (StraceSummary ?res) = set pre \<union> {P}"
    by (simp add: record_outcomes_dom_StraceSummary img empty_results_def)
  have df: "dom (FileWrites ?res) = set pre \<union> {P}"
    by (simp add: record_outcomes_dom_FileWrites img empty_results_def)
  have atP: "StraceSummary ?res P = Some (Result_StraceSummary r) \<and>
             FileWrites ?res P = Some (Result_FileWrites r)"
    by (rule record_outcomes_last)
  have held: "distinct (pre @ [P]) \<longrightarrow>
            (\<forall>(p, r') \<in> set outs.
               StraceSummary ?res p = Some (Result_StraceSummary r') \<and>
               FileWrites ?res p = Some (Result_FileWrites r'))"
  proof (intro impI ballI)
    fix x assume d: "distinct (pre @ [P])" and x: "x \<in> set outs"
    obtain p r' where xp: "x = (p, r')" by (cases x)
    have "distinct (map fst (outs @ [(P, r)]))" using d ph by simp
    moreover have "(p, r') \<in> set (outs @ [(P, r)])" using x xp by simp
    ultimately show "case x of (p, r') \<Rightarrow>
               StraceSummary ?res p = Some (Result_StraceSummary r') \<and>
               FileWrites ?res p = Some (Result_FileWrites r')"
      unfolding xp using record_outcomes_lookup by fastforce
  qed
  have tb: "all_complete (traced run) pkg (sandbox, []) pre =
              Some (outs, (s1, map (Command pkg) pre))"
    by (simp add: all_complete_traced before)
  have tf: "traced run (s1, map (Command pkg) pre) (Command pkg P) =
              (Inr r, (s2, map (Command pkg) pre @ [Command pkg P]))"
    using returns by (simp add: traced_def)
  have tr: "snd (fst (snd (RunDynamicAnalysis (traced run) (sandbox, []) pkg))) =
           map (Command pkg) (pre @ [P])"
    by (simp add: walk_non_completion [OF phases tb tf status])
  from ret ph ds df atP held tr show ?thesis by blast
qed

theorem RunDynamicAnalysis_non_completion_witness:
  "RunPhases (demo_pkg [''A'', ''B'', ''C'']) = [''A''] @ ''B'' # [''C'']
   \<and> all_complete sandbox_B_crashes (demo_pkg [''A'', ''B'', ''C'']) 0 [''A'']
       = Some ([(''A'', demo_result StatusCompleted 0)], 1)
   \<and> sandbox_B_crashes 1 (Command (demo_pkg [''A'', ''B'', ''C'']) ''B'')
       = (Inr (demo_result ''error'' 1), 2)
   \<and> Status (Result_StraceSummary (demo_result ''error'' 1)) \<noteq> StatusCompleted
   \<and> RunDynamicAnalysis sandbox_B_crashes 0 (demo_pkg [''A'', ''B'', ''C'']) =
       ((record_outcomes empty_results
           [(''A'', demo_result StatusCompleted 0), (''B'', demo_result ''error'' 1)],
         ''B'', ''error'', None), 2, LogDynamicAnalysisResult ''B'' ''error'')
   \<and> dom (StraceSummary (record_outcomes empty_results
           [(''A'', demo_result StatusCompleted 0), (''B'', demo_result ''error'' 1)]))
       = {''A'', ''B''}
   \<and> snd (fst (snd (RunDynamicAnalysis (traced sandbox_B_crashes) (0, [])
         (demo_pkg [''A'', ''B'', ''C''])))) = [''run-A'', ''run-B'']"
proof -
  have phases: "RunPhases (demo_pkg [''A'', ''B'', ''C'']) = [''A''] @ ''B'' # [''C'']"
    by (simp add: demo_pkg_def)
  have before: "all_complete sandbox_B_crashes (demo_pkg [''A'', ''B'', ''C'']) 0 [''A'']
       = Some ([(''A'', demo_result StatusCompleted 0)], 1)"
    by (simp add: demo_pkg_def sandbox_B_crashes_def demo_result_def)
  have returns: "sandbox_B_crashes 1 (Command (demo_pkg [''A'', ''B'', ''C'']) ''B'')
       = (Inr (demo_result ''error'' 1), 2)"
    by (simp add: demo_pkg_def sandbox_B_crashes_def)
  have status: "Status (Result_StraceSummary (demo_result ''error'' 1)) \<noteq> StatusCompleted"
    by (simp add: demo_result_def StatusCompleted_def)
  have cmds: "map (Command (demo_pkg [''A'', ''B'', ''C''])) ([''A''] @ [''B''])
       = [''run-A'', ''run-B'']"
    by (simp add: demo_pkg_def)
  show ?thesis
    using RunDynamicAnalysis_non_completion [OF phases before returns status]
    by (simp only: phases before returns cmds) (simp add: demo_result_def StatusCompleted_def insert_commute)
qed

text \<open>
  Claim C9. The two maps of the returned results have the same key set: a phase has a
  syscall summary exactly when it has a file-write record.
\<close>

theorem RunDynamicAnalysis_same_keys:
  "dom (StraceSummary (fst (fst (RunDynamicAnalysis run sandbox pkg)))) =
   dom (FileWrites (fst (fst (RunDynamicAnalysis run sandbox pkg))))
   \<and> (\<forall>phase. (StraceSummary (fst (fst (RunDynamicAnalysis run sandbox pkg))) phase \<noteq> None)
              = (FileWrites (fst (fst (RunDynamicAnalysis run sandbox pkg))) phase \<noteq> None))"
proof -
  from phase_loop_dom_eq [of "init_locals sandbox" run pkg "RunPhases pkg"]
  have eq: "dom (StraceSummary (fst (fst (RunDynamicAnalysis run sandbox pkg)))) =
        dom (FileWrites (fst (fst (RunDynamicAnalysis run sandbox pkg))))"
    by (simp add: RunDynamicAnalysis_def Let_def init_locals_def)
  then show ?thesis by (metis domIff)
qed

text \<open>
  Claim C10. With an empty phase sequence \<open>RunDynamicAnalysis\<close> returns two empty maps,
  the empty string as the last phase, the empty status and no error; the sandbox is left
  as it was and was asked to run no command.
\<close>

theorem RunDynamicAnalysis_no_phases:
  assumes "RunPhases pkg = []"
  shows "RunDynamicAnalysis run sandbox pkg =
           ((\<lparr>StraceSummary = Map.empty, FileWrites = Map.empty\<rparr>, [], [], None),
            sandbox, LogDynamicAnalysisResult [] [])
       \<and> snd (fst (snd (RunDynamicAnalysis (traced run) (sandbox, []) pkg))) = []"
  using assms by (simp add: RunDynamicAnalysis_def init_locals_def)

theorem RunDynamicAnalysis_no_phases_witness:
  "RunPhases (demo_pkg []) = []
   \<and> RunDynamicAnalysis sandbox_B_crashes 7 (demo_pkg []) =
       ((\<lparr>StraceSummary = Map.empty, FileWrites = Map.empty\<rparr>, [], [], None),
        7, LogDynamicAnalysisResult [] [])
   \<and> snd (fst (snd (RunDynamicAnalysis (traced sandbox_B_crashes) (7, []) (demo_pkg [])))) = []"
proof -
  have phases: "RunPhases (demo_pkg []) = []"
    by (simp add: demo_pkg_def)
  show ?thesis
    using RunDynamicAnalysis_no_phases [OF phases, of sandbox_B_crashes 7] phases
    by simp
qed

section \<open>Properties of the symbol extraction\<close>

subsection \<open>Facts about conversion\<close>

lemma is_string_iff: "is_string v = (\<exists>s. v = AnyString s)"
  by (cases v) simp_all

lemma assert_string_Inr: "is_string v \<Longrightarrow> \<exists>s. v = AnyString s \<and> assert_string v = Inr s"
  by (cases v) simp_all

lemma assert_string_Inl:
  "\<not> is_string v \<Longrightarrow> assert_string v = Inl (InterfaceConversion (Sprintf_T v))"
  by (cases v) simp_all

lemma parse_literal_panics:
  "\<not> is_string (index (Extra element) ''raw'') \<Longrightarrow>
   parse_literal element = Inl (InterfaceConversion (Sprintf_T (index (Extra element) ''raw'')))"
  by (simp add: parse_literal_def assert_string_Inl)

lemma parse_literal_returns:
  assumes "index (Extra element) ''raw'' = AnyString raw"
  shows "\<exists>literal. parse_literal element = Inr literal
     \<and> parsedLiteral.Type literal = SymbolSubtype element
     \<and> RawValue literal = raw
     \<and> InArray literal = (index (Extra element) ''array'' = AnyBool True)
     \<and> parsedLiteral.Pos literal = parserOutputElement.Pos element"
  using assms
  by (auto simp: parse_literal_def Let_def split: any.splits option.splits)

lemma convert_element_panics_iff:
  "isl (convert_element w st element) = (\<not> well_shaped w element)"
proof -
  obtain result warnings where st: "st = (result, warnings)" by (cases st)
  show ?thesis
  proof (cases "SymbolType element")
    case Identifier
    then show ?thesis
      by (cases "parserOutputElement.Data element")
         (auto simp: convert_element_def well_shaped_def st Let_def)
  next
    case Literal
    show ?thesis
    proof (cases "is_string (index (Extra element) ''raw'')")
      case True
      then obtain raw where "index (Extra element) ''raw'' = AnyString raw"
        by (auto simp: is_string_iff)
      from parse_literal_returns [OF this] True Literal
      show ?thesis by (auto simp: convert_element_def well_shaped_def st)
    next
      case False
      from parse_literal_panics [OF this] False Literal
      show ?thesis by (simp add: convert_element_def well_shaped_def st)
    qed
  next
    case Comment
    then show ?thesis
      by (cases "parserOutputElement.Data element")
         (auto simp: convert_element_def well_shaped_def st)
  qed (simp_all add: convert_element_def well_shaped_def st)
qed

lemma convert_elements_panics_iff:
  "isl (convert_elements w st elements) = (\<exists>element \<in> set elements. \<not> well_shaped w element)"
proof (induction elements arbitrary: st)
  case Nil
  show ?case by simp
next
  case (Cons element rest)
  show ?case
  proof (cases "convert_element w st element")
    case (Inl p)
    then have "\<not> well_shaped w element"
      using convert_element_panics_iff [of w st element] by simp
    with Inl show ?thesis by simp
  next
    case (Inr st')
    then have "well_shaped w element"
      using convert_element_panics_iff [of w st element] by simp
    with Inr Cons.IH [of st'] show ?thesis by simp
  qed
qed

lemma index_string_iff:
  "(index m k = AnyString s) = (m k = Some (AnyString s))"
  by (simp add: index_def split: option.splits)

lemma index_true_iff:
  "(index m k = AnyBool True) = (m k = Some (AnyBool True))"
  by (simp add: index_def split: option.splits)

lemma is_string_index_iff:
  "is_string (index m k) = (\<exists>s. m k = Some (AnyString s))"
  by (simp add: is_string_iff index_string_iff)

lemma parse_literal_value:
  assumes raw: "Extra element ''raw'' = Some (AnyString raw)"
  shows "parse_literal element = Inr (literal_of element)"
    and "RawValue (literal_of element) = raw"
proof -
  have r: "index (Extra element) ''raw'' = AnyString raw"
    using raw by (simp add: index_string_iff)
  show "parse_literal element = Inr (literal_of element)"
    by (cases "parserOutputElement.Data element")
       (simp_all add: parse_literal_def literal_of_def stored_value_def r Let_def index_true_iff
          split: option.splits)
  show "RawValue (literal_of element) = raw"
    by (simp add: literal_of_def r)
qed

lemma convert_element_Literal:
  "SymbolType element = Literal \<Longrightarrow>
   convert_element w (result, warnings) element =
     (case parse_literal element of
        Inl p \<Rightarrow> Inl p
      | Inr literal \<Rightarrow> Inr (result\<lparr>Literals := Literals result @ [literal]\<rparr>, warnings))"
  by (simp add: convert_element_def)

lemma convert_element_literals:
  assumes "convert_element w (result, warnings) element = Inr (result', warnings')"
  shows "Literals result' = Literals result @ (if is_Literal element then [literal_of element] else [])"
proof (cases "SymbolType element")
  case Identifier
  with assms show ?thesis
    by (auto simp: convert_element_def is_Literal_def Let_def split: if_splits sum.splits)
next
  case Literal
  with assms have "\<not> isl (parse_literal element)"
    by (auto simp: convert_element_def split: sum.splits)
  then have "is_string (index (Extra element) ''raw'')"
    using parse_literal_panics [of element] by (cases "is_string (index (Extra element) ''raw'')") simp_all
  then obtain raw where "Extra element ''raw'' = Some (AnyString raw)"
    by (auto simp: is_string_index_iff)
  from parse_literal_value(1) [OF this] assms Literal show ?thesis
    by (auto simp: convert_element_def is_Literal_def)
next
  case Comment
  with assms show ?thesis
    by (auto simp: convert_element_def is_Literal_def split: sum.splits)
next
  case Info
  with assms show ?thesis by (auto simp: convert_element_def is_Literal_def)
next
  case Error
  with assms show ?thesis by (auto simp: convert_element_def is_Literal_def)
next
  case (Unrecognised tag)
  with assms show ?thesis by (auto simp: convert_element_def is_Literal_def)
qed

lemma convert_elements_literals:
  "convert_elements w (result, warnings) elements = Inr (result', warnings') \<Longrightarrow>
   Literals result' = Literals result @ map literal_of (filter is_Literal elements)"
proof (induction elements arbitrary: result warnings)
  case Nil
  then show ?case by simp
next
  case (Cons element rest)
  from Cons.prems obtain result1 warnings1 where
    step: "convert_element w (result, warnings) element = Inr (result1, warnings1)" and
    rest: "convert_elements w (result1, warnings1) rest = Inr (result', warnings')"
    by (auto split: sum.splits)
  from convert_element_literals [OF step] Cons.IH [OF rest]
  show ?case by simp
qed

lemma runParser_Output:
  assumes "length filePath = 0 \<longrightarrow>
             StdinPipe (exec_Command w ''node'' [parserPath]) = None \<and>
             Write (exec_Command w ''node'' [parserPath]) source = None \<and>
             Close (exec_Command w ''node'' [parserPath]) = None"
  shows "runParser w parserPath filePath source =
     (case Output (exec_Command w ''node''
                     ([parserPath] @ (if length filePath > 0 then [filePath] else [])))
                  (if length filePath = 0 then Some source else None) of
        (out, Some err) \<Rightarrow> ([], Some err)
      | (out, None) \<Rightarrow> (out, None))"
  using assms by (simp add: runParser_def Let_def)

lemma parseJS_decoded:
  assumes "runParser w (ParserPath cfg) filePath source = (out, None)"
    and "json_Decode w out = Inr storage"
  shows "parseJS w cfg filePath source =
     (case convert_elements w (zero_parserOutput\<lparr>ValidInput := True\<rparr>, []) storage of
        Inl p \<Rightarrow> Inl p
      | Inr (result, warnings) \<Rightarrow> Inr ((result, out, None), warnings))"
  using assms by (simp add: parseJS_def)

lemma parseJS_literals:
  assumes "runParser w (ParserPath cfg) filePath source = (out, None)"
    and "json_Decode w out = Inr storage"
    and "parseJS w cfg filePath source = Inr ((returned, out', err), logged)"
  shows "Literals returned = map literal_of (filter is_Literal storage)"
proof -
  from assms have "convert_elements w (zero_parserOutput\<lparr>ValidInput := True\<rparr>, []) storage
           = Inr (returned, logged)"
    using parseJS_decoded [of w cfg filePath source out storage]
    by (auto split: sum.splits)
  from convert_elements_literals [OF this]
  show ?thesis by (simp add: zero_parserOutput_def)
qed

lemma parseJS_returns:
  assumes "runParser w (ParserPath cfg) filePath source = (out, None)"
    and "json_Decode w out = Inr storage"
    and "\<forall>element \<in> set storage. well_shaped w element"
  shows "\<exists>returned logged. parseJS w cfg filePath source = Inr ((returned, out, None), logged)"
proof -
  have "\<not> isl (convert_elements w (zero_parserOutput\<lparr>ValidInput := True\<rparr>, []) storage)"
    using assms(3) convert_elements_panics_iff [of w _ storage] by blast
  then obtain returned logged where
    "convert_elements w (zero_parserOutput\<lparr>ValidInput := True\<rparr>, []) storage
       = Inr (returned, logged)"
    by (cases "convert_elements w (zero_parserOutput\<lparr>ValidInput := True\<rparr>, []) storage") auto
  with parseJS_decoded [OF assms(1) assms(2)] show ?thesis by simp
qed

lemma scan_digits_decimal:
  "list_all is_digit s \<Longrightarrow>
   scan_digits base0 10 prv invalSep count z s =
     (if s = [] then prv else PrevDigit, invalSep, count + length s,
      foldl (\<lambda>n ch. 10 * n + (of_char ch - 48)) z s, [])"
proof (induction s arbitrary: prv count z)
  case Nil
  show ?case by simp
next
  case (Cons ch s)
  then have d: "is_digit ch" and rest: "list_all is_digit s" by simp_all
  from d have v: "digit_value 10 ch = of_char ch - 48" "of_char ch - 48 < (10::nat)"
    by (auto simp: digit_value_def is_digit_def Let_def)
  from d have u: "ch \<noteq> CHR ''_''"
    by (auto simp: is_digit_def)
  show ?case
    using Cons.IH [OF rest, of PrevDigit "count + 1" "z * 10 + (of_char ch - 48)"] v u
    by (simp add: mult.commute)
qed

lemma SetString_decimal:
  assumes "decimal_text s"
  shows "SetString s 0 = Some (int (decimal_value s))"
proof -
  from assms obtain ch rest where s: "s = ch # rest" and d: "is_digit ch" "list_all is_digit rest"
    and z: "ch = CHR ''0'' \<longrightarrow> rest = []"
    by (cases s) (auto simp: decimal_text_def)
  from d have sign: "ch \<noteq> CHR ''-''" "ch \<noteq> CHR ''+''"
    by (auto simp: is_digit_def)
  show ?thesis
  proof (cases "ch = CHR ''0''")
    case True
    with z s show ?thesis
      by (simp add: SetString_def nat_scan_def scan_prefix_def decimal_value_def)
  next
    case False
    have all: "list_all is_digit (ch # rest)" using d by simp
    have "nat_scan 0 s = (Some (decimal_value s), [])"
      using False scan_digits_decimal [OF all, of True PrevOther False 0 0]
      by (simp add: nat_scan_def scan_prefix_def s decimal_value_def)
    then show ?thesis using sign by (simp add: SetString_def s)
  qed
qed

lemma convert_element_identifiers:
  assumes "convert_element w (result, warnings) element = Inr (result', warnings')"
  shows "Identifiers result' = Identifiers result @
           (if kept_identifier w element then [identifier_of w element] else [])"
proof (cases "SymbolType element")
  case Identifier
  with assms show ?thesis
    by (cases "parserOutputElement.Data element")
       (auto simp: convert_element_def kept_identifier_def identifier_of_def Let_def
             split: if_splits)
next
  case Literal
  with assms show ?thesis
    by (auto simp: convert_element_def kept_identifier_def split: sum.splits)
next
  case Comment
  with assms show ?thesis
    by (auto simp: convert_element_def kept_identifier_def split: sum.splits)
next
  case Info
  with assms show ?thesis by (auto simp: convert_element_def kept_identifier_def)
next
  case Error
  with assms show ?thesis by (auto simp: convert_element_def kept_identifier_def)
next
  case (Unrecognised tag)
  with assms show ?thesis by (auto simp: convert_element_def kept_identifier_def)
qed

lemma convert_elements_identifiers:
  "convert_elements w (result, warnings) elements = Inr (result', warnings') \<Longrightarrow>
   Identifiers result' = Identifiers result @
     map (identifier_of w) (filter (kept_identifier w) elements)"
proof (induction elements arbitrary: result warnings)
  case Nil
  then show ?case by simp
next
  case (Cons element rest)
  from Cons.prems obtain result1 warnings1 where
    step: "convert_element w (result, warnings) element = Inr (result1, warnings1)" and
    rest: "convert_elements w (result1, warnings1) rest = Inr (result', warnings')"
    by (auto split: sum.splits)
  from convert_element_identifiers [OF step] Cons.IH [OF rest]
  show ?case by simp
qed

lemma parseJS_identifiers_kept:
  assumes "parseJS w cfg filePath source = Inr ((result, out, err), warnings)"
  shows "\<forall>i \<in> set (Identifiers result).
           parsedIdentifier.Type i \<noteq> Other w \<and> parsedIdentifier.Type i \<noteq> Unknown w"
proof (cases "runParser w (ParserPath cfg) filePath source")
  case (Pair parserOutput e)
  show ?thesis
  proof (cases e)
    case (Some err')
    with Pair assms have "Identifiers result = []"
      by (cases err') (auto simp: parseJS_def InvalidInput_def zero_parserOutput_def split: if_splits)
    then show ?thesis by simp
  next
    case None
    show ?thesis
    proof (cases "json_Decode w parserOutput")
      case (Inl derr)
      with Pair None assms have "Identifiers result = []"
        by (auto simp: parseJS_def zero_parserOutput_def)
      then show ?thesis by simp
    next
      case (Inr storage)
      with Pair None assms have
        "convert_elements w (zero_parserOutput\<lparr>ValidInput := True\<rparr>, []) storage
           = Inr (result, warnings)"
        by (auto simp: parseJS_def split: sum.splits)
      from convert_elements_identifiers [OF this]
      show ?thesis
        by (auto simp: zero_parserOutput_def kept_identifier_def identifier_of_def)
    qed
  qed
qed

subsection \<open>The claims about \<open>parseJS\<close>\<close>

text \<open>
  Claim C2. When the parser process exits with code 33, whatever it wrote to standard
  output, \<open>parseJS\<close> returns a result that is flagged invalid and holds no identifier,
  literal or comment, together with a nil error.
\<close>

theorem parseJS_syntax_error:
  assumes exits:
      "Output (exec_Command w ''node''
                 ([ParserPath cfg] @ (if length filePath > 0 then [filePath] else [])))
              (if length filePath = 0 then Some source else None)
         = (stdout, Some (ExitError syntaxErrorExitCode stderr))"
    and piped:
      "length filePath = 0 \<longrightarrow>
         StdinPipe (exec_Command w ''node'' [ParserPath cfg]) = None \<and>
         Write (exec_Command w ''node'' [ParserPath cfg]) source = None \<and>
         Close (exec_Command w ''node'' [ParserPath cfg]) = None"
  shows "\<exists>result. parseJS w cfg filePath source = Inr ((result, [], None), [])
           \<and> \<not> ValidInput result
           \<and> Identifiers result = [] \<and> Literals result = [] \<and> Comments result = []"
proof -
  have "runParser w (ParserPath cfg) filePath source
          = ([], Some (ExitError syntaxErrorExitCode stderr))"
    using runParser_Output [OF piped] exits by simp
  then have "parseJS w cfg filePath source = Inr ((InvalidInput, [], None), [])"
    by (simp add: parseJS_def)
  then show ?thesis by (simp add: InvalidInput_def)
qed

theorem parseJS_syntax_error_witness:
  "Output (exec_Command (demo_world (''[{type: Ident'', Some (ExitError 33 ''SyntaxError'')) [])
             ''node'' ([ParserPath \<lparr>ParserPath = ''parser.js''\<rparr>] @ []))
          (Some ''function ('')
     = (''[{type: Ident'', Some (ExitError syntaxErrorExitCode ''SyntaxError''))
   \<and> parseJS (demo_world (''[{type: Ident'', Some (ExitError 33 ''SyntaxError'')) [])
        \<lparr>ParserPath = ''parser.js''\<rparr> [] ''function (''
     = Inr ((\<lparr>ValidInput = False, Identifiers = [], Literals = [], Comments = []\<rparr>, [], None), [])"
proof -
  let ?w = "demo_world (''[{type: Ident'', Some (ExitError 33 ''SyntaxError'')) []
              :: (string, int) world"
  have exits: "Output (exec_Command ?w ''node''
                 ([ParserPath \<lparr>ParserPath = ''parser.js''\<rparr>]
                    @ (if length ([] :: string) > 0 then [[]] else [])))
              (if length ([] :: string) = 0 then Some ''function ('' else None)
         = (''[{type: Ident'', Some (ExitError syntaxErrorExitCode ''SyntaxError''))"
    by (simp add: demo_world_def syntaxErrorExitCode_def)
  have piped: "length ([] :: string) = 0 \<longrightarrow>
         StdinPipe (exec_Command ?w ''node'' [ParserPath \<lparr>ParserPath = ''parser.js''\<rparr>]) = None \<and>
         Write (exec_Command ?w ''node'' [ParserPath \<lparr>ParserPath = ''parser.js''\<rparr>]) ''function ('' = None \<and>
         Close (exec_Command ?w ''node'' [ParserPath \<lparr>ParserPath = ''parser.js''\<rparr>]) = None"
    by (simp add: demo_world_def)
  from parseJS_syntax_error [OF exits piped]
  obtain result where
    "parseJS ?w \<lparr>ParserPath = ''parser.js''\<rparr> [] ''function ('' = Inr ((result, [], None), [])"
    "\<not> ValidInput result" "Identifiers result = []" "Literals result = []" "Comments result = []"
    by blast
  moreover from this have "result = \<lparr>ValidInput = False, Identifiers = [], Literals = [], Comments = []\<rparr>"
    by (cases result) simp
  ultimately show ?thesis using exits by simp
qed

text \<open>
  Claim C5, as stated, relates the stored integer to the raw text of the literal. The
  code reads the payload and never the \<open>raw\<close> attribute: a \<open>Numeric\<close> record with
  payload \<open>123\<close> and raw text \<open>456\<close> is stored with the big integer 123, while
  its raw text, read in base 10 or in base 0, is 456.
\<close>

theorem parseJS_numeric_literal_raw_text_counterexample:
  "parseJS (demo_world (''[...]'', None)
       [demo_element Literal ''Numeric'' (AnyString ''123'') [(''raw'', AnyString ''456'')]])
     \<lparr>ParserPath = ''parser.js''\<rparr> ''a.js'' []
     = Inr ((\<lparr>ValidInput = True, Identifiers = [],
              Literals = [\<lparr>parsedLiteral.Type = ''Numeric'', GoType = ''big.Int'',
                           Value = AnyBigInt 123, RawValue = ''456'', InArray = False,
                           parsedLiteral.Pos = (1, 1)\<rparr>],
              Comments = []\<rparr>, ''[...]'', None), [])
   \<and> SetString ''456'' 0 = Some 456
   \<and> SetString ''456'' 10 = Some 456
   \<and> (AnyBigInt 123 :: int any) \<noteq> AnyBigInt 456"
  by (simp add: parseJS_def runParser_def demo_world_def demo_element_def
        convert_element_def parse_literal_def index_def zero_parserOutput_def
        SetString_def nat_scan_def scan_prefix_def digit_value_def)

text \<open>
  Claim C5, amended. For a literal record of category \<open>Numeric\<close> whose \<open>raw\<close>
  attribute is text: when the payload is text that \<open>SetString\<close> with base 0 reads as
  the integer \<open>n\<close>, the stored value is the big integer \<open>n\<close>, and for a payload of
  plain decimal digits that is its base-10 value; when \<open>SetString\<close> rejects the
  payload, the text is stored unchanged; a payload that is a native number is stored
  unchanged; the raw text is stored as \<open>RawValue\<close> and plays no part. In every result
  that \<open>parseJS\<close> returns, the values of the literals are these stored values of the
  literal records, in the order of the decoded output, and \<open>parseJS\<close> returns whenever
  all records are well shaped.
\<close>

theorem parseJS_numeric_literal:
  "(SymbolType element = Literal \<and> SymbolSubtype element = ''Numeric'' \<and>
    Extra element ''raw'' = Some (AnyString raw) \<longrightarrow>
      (\<forall>text n. parserOutputElement.Data element = AnyString text
              \<and> SetString text 0 = Some n \<longrightarrow>
            convert_element w (result, warnings) element =
              Inr (result\<lparr>Literals := Literals result @
                     [\<lparr>parsedLiteral.Type = ''Numeric'', GoType = ''big.Int'',
                       Value = AnyBigInt n, RawValue = raw,
                       InArray = (Extra element ''array'' = Some (AnyBool True)),
                       parsedLiteral.Pos = parserOutputElement.Pos element\<rparr>]\<rparr>, warnings))
    \<and> (\<forall>text. parserOutputElement.Data element = AnyString text
              \<and> decimal_text text \<longrightarrow>
            convert_element w (result, warnings) element =
              Inr (result\<lparr>Literals := Literals result @
                     [\<lparr>parsedLiteral.Type = ''Numeric'', GoType = ''big.Int'',
                       Value = AnyBigInt (int (decimal_value text)), RawValue = raw,
                       InArray = (Extra element ''array'' = Some (AnyBool True)),
                       parsedLiteral.Pos = parserOutputElement.Pos element\<rparr>]\<rparr>, warnings))
    \<and> (\<forall>text. parserOutputElement.Data element = AnyString text
              \<and> SetString text 0 = None \<longrightarrow>
            convert_element w (result, warnings) element =
              Inr (result\<lparr>Literals := Literals result @
                     [\<lparr>parsedLiteral.Type = ''Numeric'', GoType = ''string'',
                       Value = AnyString text, RawValue = raw,
                       InArray = (Extra element ''array'' = Some (AnyBool True)),
                       parsedLiteral.Pos = parserOutputElement.Pos element\<rparr>]\<rparr>, warnings))
    \<and> (\<forall>x. parserOutputElement.Data element = AnyFloat64 x \<longrightarrow>
            convert_element w (result, warnings) element =
              Inr (result\<lparr>Literals := Literals result @
                     [\<lparr>parsedLiteral.Type = ''Numeric'', GoType = ''float64'',
                       Value = AnyFloat64 x, RawValue = raw,
                       InArray = (Extra element ''array'' = Some (AnyBool True)),
                       parsedLiteral.Pos = parserOutputElement.Pos element\<rparr>]\<rparr>, warnings)))
   \<and> (\<forall>out storage returned out' err logged.
        runParser w (ParserPath cfg) filePath source = (out, None) \<and>
        json_Decode w out = Inr storage \<and>
        parseJS w cfg filePath source = Inr ((returned, out', err), logged) \<longrightarrow>
        map Value (Literals returned) = map stored_value (filter is_Literal storage))
   \<and> (\<forall>out storage.
        runParser w (ParserPath cfg) filePath source = (out, None) \<and>
        json_Decode w out = Inr storage \<and>
        (\<forall>item \<in> set storage. well_shaped w item) \<longrightarrow>
        (\<exists>returned logged.
           parseJS w cfg filePath source = Inr ((returned, out, None), logged)))"
proof (intro conjI allI impI)
  fix t n
  assume a: "SymbolType element = Literal \<and> SymbolSubtype element = ''Numeric'' \<and>
    Extra element ''raw'' = Some (AnyString raw)"
    and b: "parserOutputElement.Data element = AnyString t \<and> SetString t 0 = Some n"
  from a have kind: "SymbolType element = Literal"
    and raw: "Extra element ''raw'' = Some (AnyString raw)" by simp_all
  show "convert_element w (result, warnings) element =
              Inr (result\<lparr>Literals := Literals result @
                     [\<lparr>parsedLiteral.Type = ''Numeric'', GoType = ''big.Int'',
                       Value = AnyBigInt n, RawValue = raw,
                       InArray = (Extra element ''array'' = Some (AnyBool True)),
                       parsedLiteral.Pos = parserOutputElement.Pos element\<rparr>]\<rparr>, warnings)"
    using a b parse_literal_value(2) [OF raw]
    by (simp add: convert_element_Literal [OF kind] parse_literal_value(1) [OF raw]
          literal_of_def stored_value_def)
next
  fix t
  assume a: "SymbolType element = Literal \<and> SymbolSubtype element = ''Numeric'' \<and>
    Extra element ''raw'' = Some (AnyString raw)"
    and b: "parserOutputElement.Data element = AnyString t \<and> decimal_text t"
  from a have kind: "SymbolType element = Literal"
    and raw: "Extra element ''raw'' = Some (AnyString raw)" by simp_all
  from b have "SetString t 0 = Some (int (decimal_value t))"
    by (simp add: SetString_decimal)
  then show "convert_element w (result, warnings) element =
              Inr (result\<lparr>Literals := Literals result @
                     [\<lparr>parsedLiteral.Type = ''Numeric'', GoType = ''big.Int'',
                       Value = AnyBigInt (int (decimal_value t)), RawValue = raw,
                       InArray = (Extra element ''array'' = Some (AnyBool True)),
                       parsedLiteral.Pos = parserOutputElement.Pos element\<rparr>]\<rparr>, warnings)"
    using a b parse_literal_value(2) [OF raw]
    by (simp add: convert_element_Literal [OF kind] parse_literal_value(1) [OF raw]
          literal_of_def stored_value_def)
next
  fix t
  assume a: "SymbolType element = Literal \<and> SymbolSubtype element = ''Numeric'' \<and>
    Extra element ''raw'' = Some (AnyString raw)"
    and b: "parserOutputElement.Data element = AnyString t \<and> SetString t 0 = None"
  from a have kind: "SymbolType element = Literal"
    and raw: "Extra element ''raw'' = Some (AnyString raw)" by simp_all
  show "convert_element w (result, warnings) element =
              Inr (result\<lparr>Literals := Literals result @
                     [\<lparr>parsedLiteral.Type = ''Numeric'', GoType = ''string'',
                       Value = AnyString t, RawValue = raw,
                       InArray = (Extra element ''array'' = Some (AnyBool True)),
                       parsedLiteral.Pos = parserOutputElement.Pos element\<rparr>]\<rparr>, warnings)"
    using a b parse_literal_value(2) [OF raw]
    by (simp add: convert_element_Literal [OF kind] parse_literal_value(1) [OF raw]
          literal_of_def stored_value_def)
next
  fix x
  assume a: "SymbolType element = Literal \<and> SymbolSubtype element = ''Numeric'' \<and>
    Extra element ''raw'' = Some (AnyString raw)"
    and b: "parserOutputElement.Data element = AnyFloat64 x"
  from a have kind: "SymbolType element = Literal"
    and raw: "Extra element ''raw'' = Some (AnyString raw)" by simp_all
  show "convert_element w (result, warnings) element =
              Inr (result\<lparr>Literals := Literals result @
                     [\<lparr>parsedLiteral.Type = ''Numeric'', GoType = ''float64'',
                       Value = AnyFloat64 x, RawValue = raw,
                       InArray = (Extra element ''array'' = Some (AnyBool True)),
                       parsedLiteral.Pos = parserOutputElement.Pos element\<rparr>]\<rparr>, warnings)"
    using a b parse_literal_value(2) [OF raw]
    by (simp add: convert_element_Literal [OF kind] parse_literal_value(1) [OF raw]
          literal_of_def stored_value_def)
next
  fix out storage returned out' err logged
  assume "runParser w (ParserPath cfg) filePath source = (out, None) \<and>
        json_Decode w out = Inr storage \<and>
        parseJS w cfg filePath source = Inr ((returned, out', err), logged)"
  then have "Literals returned = map literal_of (filter is_Literal storage)"
    using parseJS_literals [of w cfg filePath source out storage returned out' err logged]
    by blast
  then show "map Value (Literals returned) = map stored_value (filter is_Literal storage)"
    by (simp add: literal_of_def)
next
  fix out storage
  assume "runParser w (ParserPath cfg) filePath source = (out, None) \<and>
        json_Decode w out = Inr storage \<and>
        (\<forall>item \<in> set storage. well_shaped w item)"
  then show "\<exists>returned logged.
           parseJS w cfg filePath source = Inr ((returned, out, None), logged)"
    using parseJS_returns [of w cfg filePath source out storage] by blast
qed


theorem parseJS_numeric_literal_witness:
  "decimal_text ''18446744073709551616''
   \<and> int (decimal_value ''18446744073709551616'') = 18446744073709551616
   \<and> convert_element (demo_world ([], None) []) (zero_parserOutput, [])
     (demo_element Literal ''Numeric'' (AnyString ''18446744073709551616'')
        [(''raw'', AnyString ''18446744073709551616n'')])
   = Inr (zero_parserOutput\<lparr>Literals :=
        [\<lparr>parsedLiteral.Type = ''Numeric'', GoType = ''big.Int'',
          Value = AnyBigInt 18446744073709551616, RawValue = ''18446744073709551616n'',
          InArray = False, parsedLiteral.Pos = (1, 1)\<rparr>]\<rparr>, [])
   \<and> convert_element (demo_world ([], None) []) (zero_parserOutput, [])
     (demo_element Literal ''Numeric'' (AnyString ''0x1F'') [(''raw'', AnyString ''0x1Fn'')])
   = Inr (zero_parserOutput\<lparr>Literals :=
        [\<lparr>parsedLiteral.Type = ''Numeric'', GoType = ''big.Int'',
          Value = AnyBigInt 31, RawValue = ''0x1Fn'',
          InArray = False, parsedLiteral.Pos = (1, 1)\<rparr>]\<rparr>, [])
   \<and> convert_element (demo_world ([], None) []) (zero_parserOutput, [])
     (demo_element Literal ''Numeric'' (AnyString ''12abc'') [(''raw'', AnyString ''12abc'')])
   = Inr (zero_parserOutput\<lparr>Literals :=
        [\<lparr>parsedLiteral.Type = ''Numeric'', GoType = ''string'',
          Value = AnyString ''12abc'', RawValue = ''12abc'',
          InArray = False, parsedLiteral.Pos = (1, 1)\<rparr>]\<rparr>, [])
   \<and> convert_element (demo_world ([], None) []) (zero_parserOutput, [])
     (demo_element Literal ''Numeric'' (AnyFloat64 42) [(''raw'', AnyString ''42'')])
   = Inr (zero_parserOutput\<lparr>Literals :=
        [\<lparr>parsedLiteral.Type = ''Numeric'', GoType = ''float64'',
          Value = AnyFloat64 42, RawValue = ''42'',
          InArray = False, parsedLiteral.Pos = (1, 1)\<rparr>]\<rparr>, [])
   \<and> (\<exists>returned logged.
        parseJS (demo_world (''[...]'', None)
          [demo_element Literal ''Numeric'' (AnyString ''18446744073709551616'')
             [(''raw'', AnyString ''18446744073709551616n'')],
           demo_element Comment ''Line'' (AnyString ''c'') [],
           demo_element Literal ''Numeric'' (AnyString ''12abc'') [(''raw'', AnyString ''12abc'')],
           demo_element Literal ''Numeric'' (AnyFloat64 42) [(''raw'', AnyString ''42'')]])
          \<lparr>ParserPath = ''parser.js''\<rparr> ''a.js'' []
        = Inr ((returned, ''[...]'', None), logged)
        \<and> map Value (Literals returned)
            = [AnyBigInt 18446744073709551616, AnyString ''12abc'', AnyFloat64 42])"
proof -
  let ?w = "demo_world ([], None) [] :: (string, int) world"
  let ?big = "demo_element Literal ''Numeric'' (AnyString ''18446744073709551616'')
        [(''raw'', AnyString ''18446744073709551616n'')]"
  let ?hex = "demo_element Literal ''Numeric'' (AnyString ''0x1F'') [(''raw'', AnyString ''0x1Fn'')]"
  let ?bad = "demo_element Literal ''Numeric'' (AnyString ''12abc'') [(''raw'', AnyString ''12abc'')]"
  let ?num = "demo_element Literal ''Numeric'' (AnyFloat64 42) [(''raw'', AnyString ''42'')]"
  let ?c = "demo_element Comment ''Line'' (AnyString ''c'') []"
  let ?batch = "demo_world (''[...]'', None) [?big, ?c, ?bad, ?num] :: (string, int) world"
  let ?cfg = "\<lparr>ParserPath = ''parser.js''\<rparr>"
  have dt: "decimal_text ''18446744073709551616''"
    by (simp add: decimal_text_def is_digit_def)
  have dv: "int (decimal_value ''18446744073709551616'') = 18446744073709551616"
    by (simp add: decimal_value_def)
  have big: "SymbolType ?big = Literal \<and> SymbolSubtype ?big = ''Numeric'' \<and>
      Extra ?big ''raw'' = Some (AnyString ''18446744073709551616n'')"
      "parserOutputElement.Data ?big = AnyString ''18446744073709551616''"
    by (simp_all add: demo_element_def)
  have hex: "SymbolType ?hex = Literal \<and> SymbolSubtype ?hex = ''Numeric'' \<and>
      Extra ?hex ''raw'' = Some (AnyString ''0x1Fn'')"
      "parserOutputElement.Data ?hex = AnyString ''0x1F''"
      "SetString ''0x1F'' 0 = Some 31"
    by (simp_all add: demo_element_def SetString_def nat_scan_def scan_prefix_def digit_value_def)
  have bad: "SymbolType ?bad = Literal \<and> SymbolSubtype ?bad = ''Numeric'' \<and>
      Extra ?bad ''raw'' = Some (AnyString ''12abc'')"
      "parserOutputElement.Data ?bad = AnyString ''12abc''"
      "SetString ''12abc'' 0 = None"
    by (simp_all add: demo_element_def SetString_def nat_scan_def scan_prefix_def digit_value_def)
  have num: "SymbolType ?num = Literal \<and> SymbolSubtype ?num = ''Numeric'' \<and>
      Extra ?num ''raw'' = Some (AnyString ''42'')"
      "parserOutputElement.Data ?num = AnyFloat64 42"
    by (simp_all add: demo_element_def)
  have pos: "parserOutputElement.Pos ?big = (1, 1)" "parserOutputElement.Pos ?hex = (1, 1)"
      "parserOutputElement.Pos ?bad = (1, 1)" "parserOutputElement.Pos ?num = (1, 1)"
      "Extra ?big ''array'' = None" "Extra ?hex ''array'' = None"
      "Extra ?bad ''array'' = None" "Extra ?num ''array'' = None"
      "Literals (zero_parserOutput :: (string, int) parserOutput) = []"
    by (simp_all add: demo_element_def zero_parserOutput_def)
  have c1: "convert_element ?w (zero_parserOutput, []) ?big
     = Inr (zero_parserOutput\<lparr>Literals :=
        [\<lparr>parsedLiteral.Type = ''Numeric'', GoType = ''big.Int'',
          Value = AnyBigInt 18446744073709551616, RawValue = ''18446744073709551616n'',
          InArray = False, parsedLiteral.Pos = (1, 1)\<rparr>]\<rparr>, [])"
    using parseJS_numeric_literal [where element = ?big and w = ?w and result = zero_parserOutput
        and warnings = "[]" and raw = "''18446744073709551616n''" and cfg = ?cfg
        and filePath = "[]" and source = "[]"] big dt
    by (simp add: dv pos)
  have c2: "convert_element ?w (zero_parserOutput, []) ?hex
     = Inr (zero_parserOutput\<lparr>Literals :=
        [\<lparr>parsedLiteral.Type = ''Numeric'', GoType = ''big.Int'',
          Value = AnyBigInt 31, RawValue = ''0x1Fn'',
          InArray = False, parsedLiteral.Pos = (1, 1)\<rparr>]\<rparr>, [])"
    using parseJS_numeric_literal [where element = ?hex and w = ?w and result = zero_parserOutput
        and warnings = "[]" and raw = "''0x1Fn''" and cfg = ?cfg
        and filePath = "[]" and source = "[]"] hex
    by (simp add: pos)
  have c3: "convert_element ?w (zero_parserOutput, []) ?bad
     = Inr (zero_parserOutput\<lparr>Literals :=
        [\<lparr>parsedLiteral.Type = ''Numeric'', GoType = ''string'',
          Value = AnyString ''12abc'', RawValue = ''12abc'',
          InArray = False, parsedLiteral.Pos = (1, 1)\<rparr>]\<rparr>, [])"
    using parseJS_numeric_literal [where element = ?bad and w = ?w and result = zero_parserOutput
        and warnings = "[]" and raw = "''12abc''" and cfg = ?cfg
        and filePath = "[]" and source = "[]"] bad
    by (simp add: pos)
  have c4: "convert_element ?w (zero_parserOutput, []) ?num
     = Inr (zero_parserOutput\<lparr>Literals :=
        [\<lparr>parsedLiteral.Type = ''Numeric'', GoType = ''float64'',
          Value = AnyFloat64 42, RawValue = ''42'',
          InArray = False, parsedLiteral.Pos = (1, 1)\<rparr>]\<rparr>, [])"
    using parseJS_numeric_literal [where element = ?num and w = ?w and result = zero_parserOutput
        and warnings = "[]" and raw = "''42''" and cfg = ?cfg
        and filePath = "[]" and source = "[]"] num
    by (simp add: pos)
  have run: "runParser ?batch (ParserPath ?cfg) ''a.js'' [] = (''[...]'', None)"
    by (simp add: runParser_def demo_world_def)
  have dec: "json_Decode ?batch ''[...]'' = Inr [?big, ?c, ?bad, ?num]"
    by (simp add: demo_world_def)
  have shaped: "\<forall>item \<in> set [?big, ?c, ?bad, ?num]. well_shaped ?batch item"
    by (simp add: well_shaped_def demo_element_def index_def)
  have "\<exists>returned logged. parseJS ?batch ?cfg ''a.js'' [] = Inr ((returned, ''[...]'', None), logged)"
    using parseJS_numeric_literal [where w = ?batch and cfg = ?cfg and filePath = "''a.js''"
        and source = "[]" and element = ?big and result = zero_parserOutput and warnings = "[]"
        and raw = "[]"] run dec shaped
    by blast
  then obtain returned logged where
    ret: "parseJS ?batch ?cfg ''a.js'' [] = Inr ((returned, ''[...]'', None), logged)"
    by blast
  have "map Value (Literals returned) = map stored_value (filter is_Literal [?big, ?c, ?bad, ?num])"
    using parseJS_numeric_literal [where w = ?batch and cfg = ?cfg and filePath = "''a.js''"
        and source = "[]" and element = ?big and result = zero_parserOutput and warnings = "[]"
        and raw = "[]"] run dec ret
    by blast
  then have vals: "map Value (Literals returned)
            = [AnyBigInt 18446744073709551616, AnyString ''12abc'', AnyFloat64 42]"
    by (simp add: is_Literal_def stored_value_def demo_element_def
          SetString_def nat_scan_def scan_prefix_def digit_value_def)
  from dt dv c1 c2 c3 c4 ret vals show ?thesis
    by (intro conjI exI [of _ returned] exI [of _ logged])
qed

text \<open>
  Claim C7. For a literal record whose \<open>raw\<close> attribute is text, the parsed literal has
  \<open>InArray\<close> true exactly when the extra attributes bind \<open>array\<close> to the boolean true;
  a missing key and any other value give false. In every result that \<open>parseJS\<close>
  returns, the \<open>InArray\<close> flags of the literals are these, record by record in the order
  of the decoded output, and \<open>parseJS\<close> returns whenever all records are well shaped.
\<close>

theorem parseJS_literal_InArray:
  "(SymbolType element = Literal \<and> Extra element ''raw'' = Some (AnyString raw) \<longrightarrow>
      (\<exists>literal. convert_element w (result, warnings) element =
                     Inr (result\<lparr>Literals := Literals result @ [literal]\<rparr>, warnings)
           \<and> InArray literal = (Extra element ''array'' = Some (AnyBool True))
           \<and> (Extra element ''array'' = None \<longrightarrow> \<not> InArray literal)
           \<and> (\<forall>v. Extra element ''array'' = Some v \<and> v \<noteq> AnyBool True \<longrightarrow> \<not> InArray literal)))
   \<and> (\<forall>out storage returned out' err logged.
        runParser w (ParserPath cfg) filePath source = (out, None) \<and>
        json_Decode w out = Inr storage \<and>
        parseJS w cfg filePath source = Inr ((returned, out', err), logged) \<longrightarrow>
        map InArray (Literals returned) =
          map (\<lambda>item. Extra item ''array'' = Some (AnyBool True)) (filter is_Literal storage))
   \<and> (\<forall>out storage.
        runParser w (ParserPath cfg) filePath source = (out, None) \<and>
        json_Decode w out = Inr storage \<and>
        (\<forall>item \<in> set storage. well_shaped w item) \<longrightarrow>
        (\<exists>returned logged.
           parseJS w cfg filePath source = Inr ((returned, out, None), logged)))"
proof (intro conjI allI impI)
  assume a: "SymbolType element = Literal \<and> Extra element ''raw'' = Some (AnyString raw)"
  then have kind: "SymbolType element = Literal"
    and raw: "Extra element ''raw'' = Some (AnyString raw)" by simp_all
  show "\<exists>literal. convert_element w (result, warnings) element =
                     Inr (result\<lparr>Literals := Literals result @ [literal]\<rparr>, warnings)
           \<and> InArray literal = (Extra element ''array'' = Some (AnyBool True))
           \<and> (Extra element ''array'' = None \<longrightarrow> \<not> InArray literal)
           \<and> (\<forall>v. Extra element ''array'' = Some v \<and> v \<noteq> AnyBool True \<longrightarrow> \<not> InArray literal)"
    by (auto simp: convert_element_Literal [OF kind] parse_literal_value(1) [OF raw] literal_of_def)
next
  fix out storage returned out' err logged
  assume "runParser w (ParserPath cfg) filePath source = (out, None) \<and>
        json_Decode w out = Inr storage \<and>
        parseJS w cfg filePath source = Inr ((returned, out', err), logged)"
  then have "Literals returned = map literal_of (filter is_Literal storage)"
    using parseJS_literals [of w cfg filePath source out storage returned out' err logged]
    by blast
  then show "map InArray (Literals returned) =
          map (\<lambda>item. Extra item ''array'' = Some (AnyBool True)) (filter is_Literal storage)"
    by (simp add: literal_of_def)
next
  fix out storage
  assume "runParser w (ParserPath cfg) filePath source = (out, None) \<and>
        json_Decode w out = Inr storage \<and>
        (\<forall>item \<in> set storage. well_shaped w item)"
  then show "\<exists>returned logged.
           parseJS w cfg filePath source = Inr ((returned, out, None), logged)"
    using parseJS_returns [of w cfg filePath source out storage] by blast
qed


theorem parseJS_literal_InArray_witness:
  "SymbolType (demo_element Literal ''String'' (AnyString ''a'')
       [(''raw'', AnyString ''a''), (''array'', AnyBool True)]) = Literal
   \<and> Extra (demo_element Literal ''String'' (AnyString ''a'')
       [(''raw'', AnyString ''a''), (''array'', AnyBool True)]) ''raw'' = Some (AnyString ''a'')
   \<and> (\<exists>literal. convert_element (demo_world ([], None) []) (zero_parserOutput, [])
         (demo_element Literal ''String'' (AnyString ''a'')
            [(''raw'', AnyString ''a''), (''array'', AnyBool True)])
         = Inr (zero_parserOutput\<lparr>Literals := [literal]\<rparr>, [])
       \<and> InArray literal)
   \<and> (\<exists>literal. convert_element (demo_world ([], None) []) (zero_parserOutput, [])
         (demo_element Literal ''String'' (AnyString ''a'')
            [(''raw'', AnyString ''a''), (''array'', AnyBool False)])
         = Inr (zero_parserOutput\<lparr>Literals := [literal]\<rparr>, [])
       \<and> \<not> InArray literal)
   \<and> (\<exists>literal. convert_element (demo_world ([], None) []) (zero_parserOutput, [])
         (demo_element Literal ''String'' (AnyString ''a'')
            [(''raw'', AnyString ''a''), (''array'', AnyString ''true'')])
         = Inr (zero_parserOutput\<lparr>Literals := [literal]\<rparr>, [])
       \<and> \<not> InArray literal)
   \<and> (\<exists>literal. convert_element (demo_world ([], None) []) (zero_parserOutput, [])
         (demo_element Literal ''String'' (AnyString ''a'') [(''raw'', AnyString ''a'')])
         = Inr (zero_parserOutput\<lparr>Literals := [literal]\<rparr>, [])
       \<and> \<not> InArray literal)
   \<and> (\<exists>returned logged.
        parseJS (demo_world (''[...]'', None)
          [demo_element Literal ''String'' (AnyString ''a'')
             [(''raw'', AnyString ''a''), (''array'', AnyBool True)],
           demo_element Identifier ''Function'' (AnyString ''f'') [],
           demo_element Literal ''String'' (AnyString ''a'')
             [(''raw'', AnyString ''a''), (''array'', AnyBool False)],
           demo_element Literal ''String'' (AnyString ''a'')
             [(''raw'', AnyString ''a''), (''array'', AnyString ''true'')],
           demo_element Literal ''String'' (AnyString ''a'') [(''raw'', AnyString ''a'')]])
          \<lparr>ParserPath = ''parser.js''\<rparr> ''a.js'' []
        = Inr ((returned, ''[...]'', None), logged)
        \<and> map InArray (Literals returned) = [True, False, False, False])"
proof -
  let ?w = "demo_world ([], None) [] :: (string, int) world"
  let ?e = "\<lambda>extra. demo_element Literal ''String'' (AnyString ''a'') ((''raw'', AnyString ''a'') # extra)"
  let ?f = "demo_element Identifier ''Function'' (AnyString ''f'') []"
  let ?storage = "[?e [(''array'', AnyBool True)], ?f, ?e [(''array'', AnyBool False)],
                   ?e [(''array'', AnyString ''true'')], ?e []]"
  let ?batch = "demo_world (''[...]'', None) ?storage :: (string, int) world"
  let ?cfg = "\<lparr>ParserPath = ''parser.js''\<rparr>"
  have kind: "\<And>extra. SymbolType (?e extra) = Literal"
    by (simp add: demo_element_def)
  have raw: "\<And>extra. Extra (?e extra) ''raw'' = Some (AnyString ''a'')"
    by (simp add: demo_element_def)
  have arr: "Extra (?e [(''array'', AnyBool True)]) ''array'' = Some (AnyBool True)"
     "Extra (?e [(''array'', AnyBool False)]) ''array'' = Some (AnyBool False)"
     "Extra (?e [(''array'', AnyString ''true'')]) ''array'' = Some (AnyString ''true'')"
     "Extra (?e []) ''array'' = None"
    by (simp_all add: demo_element_def)
  have t: "\<exists>literal. convert_element ?w (zero_parserOutput, []) (?e [(''array'', AnyBool True)])
         = Inr (zero_parserOutput\<lparr>Literals := [literal]\<rparr>, [])
       \<and> InArray literal"
    using parseJS_literal_InArray [where element = "?e [(''array'', AnyBool True)]"
        and raw = "''a''" and w = ?w and result = zero_parserOutput and warnings = "[]"
        and cfg = ?cfg and filePath = "[]" and source = "[]"] kind raw
    unfolding arr by (simp add: zero_parserOutput_def)
  have f: "\<exists>literal. convert_element ?w (zero_parserOutput, []) (?e [(''array'', AnyBool False)])
         = Inr (zero_parserOutput\<lparr>Literals := [literal]\<rparr>, [])
       \<and> \<not> InArray literal"
    using parseJS_literal_InArray [where element = "?e [(''array'', AnyBool False)]"
        and raw = "''a''" and w = ?w and result = zero_parserOutput and warnings = "[]"
        and cfg = ?cfg and filePath = "[]" and source = "[]"] kind raw
    unfolding arr by (simp add: zero_parserOutput_def)
  have s: "\<exists>literal. convert_element ?w (zero_parserOutput, []) (?e [(''array'', AnyString ''true'')])
         = Inr (zero_parserOutput\<lparr>Literals := [literal]\<rparr>, [])
       \<and> \<not> InArray literal"
    using parseJS_literal_InArray [where element = "?e [(''array'', AnyString ''true'')]"
        and raw = "''a''" and w = ?w and result = zero_parserOutput and warnings = "[]"
        and cfg = ?cfg and filePath = "[]" and source = "[]"] kind raw
    unfolding arr by (simp add: zero_parserOutput_def)
  have n: "\<exists>literal. convert_element ?w (zero_parserOutput, []) (?e [])
         = Inr (zero_parserOutput\<lparr>Literals := [literal]\<rparr>, [])
       \<and> \<not> InArray literal"
    using parseJS_literal_InArray [where element = "?e []"
        and raw = "''a''" and w = ?w and result = zero_parserOutput and warnings = "[]"
        and cfg = ?cfg and filePath = "[]" and source = "[]"] kind raw
    unfolding arr by (simp add: zero_parserOutput_def)
  have run: "runParser ?batch (ParserPath ?cfg) ''a.js'' [] = (''[...]'', None)"
    by (simp add: runParser_def demo_world_def)
  have dec: "json_Decode ?batch ''[...]'' = Inr ?storage"
    by (simp add: demo_world_def)
  have shaped: "\<forall>item \<in> set ?storage. well_shaped ?batch item"
    by (simp add: well_shaped_def demo_element_def index_def)
  have "\<exists>returned logged. parseJS ?batch ?cfg ''a.js'' [] = Inr ((returned, ''[...]'', None), logged)"
    using parseJS_literal_InArray [where w = ?batch and cfg = ?cfg and filePath = "''a.js''"
        and source = "[]" and element = "?e []" and result = zero_parserOutput and warnings = "[]"
        and raw = "[]"] run dec shaped
    by blast
  then obtain returned logged where
    ret: "parseJS ?batch ?cfg ''a.js'' [] = Inr ((returned, ''[...]'', None), logged)"
    by blast
  have "map InArray (Literals returned) =
          map (\<lambda>item. Extra item ''array'' = Some (AnyBool True)) (filter is_Literal ?storage)"
    using parseJS_literal_InArray [where w = ?batch and cfg = ?cfg and filePath = "''a.js''"
        and source = "[]" and element = "?e []" and result = zero_parserOutput and warnings = "[]"
        and raw = "[]"] run dec ret
    by blast
  then have flags: "map InArray (Literals returned) = [True, False, False, False]"
    by (simp add: is_Literal_def demo_element_def)
  from kind [of "[(''array'', AnyBool True)]"] raw [of "[(''array'', AnyBool True)]"] t f s n ret flags
  show ?thesis by (intro conjI exI [of _ returned] exI [of _ logged])
qed

text \<open>
  Claim C6. An identifier record classified \<open>Other\<close> or \<open>Unknown\<close> leaves the result
  and the log as they are; an identifier record of any other classification with a text
  payload is appended to the identifiers; no identifier returned by \<open>parseJS\<close> is
  classified \<open>Other\<close> or \<open>Unknown\<close>, and the identifiers returned are those of the kept
  records, in the order of the decoded output.
\<close>

theorem parseJS_identifier_filter:
  "(SymbolType element = Identifier \<and>
      (CheckIdentifierType w (SymbolSubtype element) = Other w \<or>
       CheckIdentifierType w (SymbolSubtype element) = Unknown w) \<longrightarrow>
      convert_element w (result, warnings) element = Inr (result, warnings))
   \<and> (SymbolType element = Identifier \<and>
      CheckIdentifierType w (SymbolSubtype element) \<noteq> Other w \<and>
      CheckIdentifierType w (SymbolSubtype element) \<noteq> Unknown w \<and>
      parserOutputElement.Data element = AnyString name \<longrightarrow>
      convert_element w (result, warnings) element =
        Inr (result\<lparr>Identifiers := Identifiers result @
               [\<lparr>parsedIdentifier.Type = CheckIdentifierType w (SymbolSubtype element),
                 Name = name,
                 parsedIdentifier.Pos = parserOutputElement.Pos element\<rparr>]\<rparr>, warnings))
   \<and> (\<forall>returned out err logged.
        parseJS w cfg filePath source = Inr ((returned, out, err), logged) \<longrightarrow>
        (\<forall>i \<in> set (Identifiers returned).
           parsedIdentifier.Type i \<noteq> Other w \<and> parsedIdentifier.Type i \<noteq> Unknown w))
   \<and> (\<forall>out storage returned logged.
        runParser w (ParserPath cfg) filePath source = (out, None) \<and>
        json_Decode w out = Inr storage \<and>
        parseJS w cfg filePath source = Inr ((returned, out, None), logged) \<longrightarrow>
        Identifiers returned = map (identifier_of w) (filter (kept_identifier w) storage))"
proof (intro conjI allI impI)
  assume "SymbolType element = Identifier \<and>
      (CheckIdentifierType w (SymbolSubtype element) = Other w \<or>
       CheckIdentifierType w (SymbolSubtype element) = Unknown w)"
  then show "convert_element w (result, warnings) element = Inr (result, warnings)"
    by (auto simp: convert_element_def)
next
  assume "SymbolType element = Identifier \<and>
      CheckIdentifierType w (SymbolSubtype element) \<noteq> Other w \<and>
      CheckIdentifierType w (SymbolSubtype element) \<noteq> Unknown w \<and>
      parserOutputElement.Data element = AnyString name"
  then show "convert_element w (result, warnings) element =
        Inr (result\<lparr>Identifiers := Identifiers result @
               [\<lparr>parsedIdentifier.Type = CheckIdentifierType w (SymbolSubtype element),
                 Name = name,
                 parsedIdentifier.Pos = parserOutputElement.Pos element\<rparr>]\<rparr>, warnings)"
    by (simp add: convert_element_def)
next
  fix returned out err logged
  assume "parseJS w cfg filePath source = Inr ((returned, out, err), logged)"
  from parseJS_identifiers_kept [OF this]
  show "\<forall>i \<in> set (Identifiers returned).
           parsedIdentifier.Type i \<noteq> Other w \<and> parsedIdentifier.Type i \<noteq> Unknown w" .
next
  fix out storage returned logged
  assume a: "runParser w (ParserPath cfg) filePath source = (out, None) \<and>
        json_Decode w out = Inr storage \<and>
        parseJS w cfg filePath source = Inr ((returned, out, None), logged)"
  then have "convert_elements w (zero_parserOutput\<lparr>ValidInput := True\<rparr>, []) storage
           = Inr (returned, logged)"
    using parseJS_decoded [of w cfg filePath source out storage]
    by (auto split: sum.splits)
  from convert_elements_identifiers [OF this]
  show "Identifiers returned = map (identifier_of w) (filter (kept_identifier w) storage)"
    by (simp add: zero_parserOutput_def)
qed

theorem parseJS_identifier_filter_witness:
  "convert_element (demo_world ([], None) []) (zero_parserOutput, [])
       (demo_element Identifier ''Other'' (AnyString ''o'') [])
     = Inr (zero_parserOutput, [])
   \<and> convert_element (demo_world ([], None) []) (zero_parserOutput, [])
       (demo_element Identifier ''Mystery'' (AnyString ''m'') [])
     = Inr (zero_parserOutput, [])
   \<and> convert_element (demo_world ([], None) []) (zero_parserOutput, [])
       (demo_element Identifier ''Function'' (AnyString ''f'') [])
     = Inr (zero_parserOutput\<lparr>Identifiers :=
          [\<lparr>parsedIdentifier.Type = ''Function'', Name = ''f'', parsedIdentifier.Pos = (1, 1)\<rparr>]\<rparr>, [])
   \<and> (\<exists>returned.
        parseJS (demo_world (''[...]'', None)
                  [demo_element Identifier ''Other'' (AnyString ''o'') [],
                   demo_element Identifier ''Function'' (AnyString ''f'') [],
                   demo_element Identifier ''Mystery'' (AnyString ''m'') [],
                   demo_element Identifier ''Variable'' (AnyString ''v'') []])
                \<lparr>ParserPath = ''parser.js''\<rparr> ''a.js'' []
          = Inr ((returned, ''[...]'', None), [])
        \<and> (\<forall>i \<in> set (Identifiers returned).
              parsedIdentifier.Type i \<noteq> ''Other'' \<and> parsedIdentifier.Type i \<noteq> ''Unknown'')
        \<and> map Name (Identifiers returned) = [''f'', ''v''])"
proof -
  let ?w = "demo_world ([], None) [] :: (string, int) world"
  let ?o = "demo_element Identifier ''Other'' (AnyString ''o'') []"
  let ?m = "demo_element Identifier ''Mystery'' (AnyString ''m'') []"
  let ?f = "demo_element Identifier ''Function'' (AnyString ''f'') []"
  let ?v = "demo_element Identifier ''Variable'' (AnyString ''v'') []"
  let ?batch = "demo_world (''[...]'', None) [?o, ?f, ?m, ?v] :: (string, int) world"
  let ?cfg = "\<lparr>ParserPath = ''parser.js''\<rparr>"
  have other: "SymbolType ?o = Identifier \<and>
      (CheckIdentifierType ?w (SymbolSubtype ?o) = Other ?w \<or>
       CheckIdentifierType ?w (SymbolSubtype ?o) = Unknown ?w)"
    by (simp add: demo_element_def demo_world_def)
  have unknown: "SymbolType ?m = Identifier \<and>
      (CheckIdentifierType ?w (SymbolSubtype ?m) = Other ?w \<or>
       CheckIdentifierType ?w (SymbolSubtype ?m) = Unknown ?w)"
    by (simp add: demo_element_def demo_world_def)
  have kept: "SymbolType ?f = Identifier \<and>
      CheckIdentifierType ?w (SymbolSubtype ?f) \<noteq> Other ?w \<and>
      CheckIdentifierType ?w (SymbolSubtype ?f) \<noteq> Unknown ?w \<and>
      parserOutputElement.Data ?f = AnyString ''f''"
    by (simp add: demo_element_def demo_world_def)
  have c1: "convert_element ?w (zero_parserOutput, []) ?o = Inr (zero_parserOutput, [])"
    using parseJS_identifier_filter [where element = ?o and w = ?w and result = zero_parserOutput
        and warnings = "[]" and name = "[]" and cfg = ?cfg and filePath = "[]" and source = "[]"] other by blast
  have c2: "convert_element ?w (zero_parserOutput, []) ?m = Inr (zero_parserOutput, [])"
    using parseJS_identifier_filter [where element = ?m and w = ?w and result = zero_parserOutput
        and warnings = "[]" and name = "[]" and cfg = ?cfg and filePath = "[]" and source = "[]"] unknown by blast
  have c3: "convert_element ?w (zero_parserOutput, []) ?f
     = Inr (zero_parserOutput\<lparr>Identifiers :=
          [\<lparr>parsedIdentifier.Type = ''Function'', Name = ''f'', parsedIdentifier.Pos = (1, 1)\<rparr>]\<rparr>, [])"
    using parseJS_identifier_filter [where element = ?f and w = ?w and name = "''f''"
        and result = zero_parserOutput and warnings = "[]" and cfg = ?cfg
        and filePath = "[]" and source = "[]"] kept
    by (simp add: demo_element_def demo_world_def zero_parserOutput_def)
  have run: "runParser ?batch (ParserPath ?cfg) ''a.js'' [] = (''[...]'', None)"
    by (simp add: runParser_def demo_world_def)
  have dec: "json_Decode ?batch ''[...]'' = Inr [?o, ?f, ?m, ?v]"
    by (simp add: demo_world_def)
  have "\<exists>returned. convert_elements ?batch (zero_parserOutput\<lparr>ValidInput := True\<rparr>, [])
            [?o, ?f, ?m, ?v] = Inr (returned, [])"
    by (simp add: convert_element_def demo_element_def demo_world_def zero_parserOutput_def)
  then obtain returned where
    ce: "convert_elements ?batch (zero_parserOutput\<lparr>ValidInput := True\<rparr>, [])
            [?o, ?f, ?m, ?v] = Inr (returned, [])"
    by blast
  have ret: "parseJS ?batch ?cfg ''a.js'' [] = Inr ((returned, ''[...]'', None), [])"
    using parseJS_decoded [OF run dec] ce by simp
  have never: "\<forall>i \<in> set (Identifiers returned).
         parsedIdentifier.Type i \<noteq> Other ?batch \<and> parsedIdentifier.Type i \<noteq> Unknown ?batch"
    using parseJS_identifier_filter [where w = ?batch and cfg = ?cfg and filePath = "''a.js''"
        and source = "[]" and element = ?o and name = "[]" and result = zero_parserOutput
        and warnings = "[]"] ret by blast
  have "Identifiers returned = map (identifier_of ?batch) (filter (kept_identifier ?batch) [?o, ?f, ?m, ?v])"
    using parseJS_identifier_filter [where w = ?batch and cfg = ?cfg and filePath = "''a.js''"
        and source = "[]" and element = ?o and name = "[]" and result = zero_parserOutput
        and warnings = "[]"] ret run dec by blast
  then have names: "map Name (Identifiers returned) = [''f'', ''v'']"
    by (simp add: kept_identifier_def identifier_of_def demo_element_def demo_world_def)
  from never have never': "\<forall>i \<in> set (Identifiers returned).
         parsedIdentifier.Type i \<noteq> ''Other'' \<and> parsedIdentifier.Type i \<noteq> ''Unknown''"
    by (simp add: demo_world_def)
  from c1 c2 c3 ret never' names show ?thesis by (intro conjI exI [of _ returned])
qed

text \<open>
  Claim C8. For a literal record, conversion panics when the extra attributes do not
  bind \<open>raw\<close> to text and returns when they do; a decoded output that holds a literal
  record without such a binding makes \<open>parseJS\<close> panic.
\<close>

theorem parseJS_literal_raw_assertion:
  assumes kind: "SymbolType element = Literal"
  shows "((\<nexists>raw. Extra element ''raw'' = Some (AnyString raw)) \<longrightarrow>
            convert_element w st element =
              Inl (InterfaceConversion (Sprintf_T (index (Extra element) ''raw''))))
       \<and> ((\<exists>raw. Extra element ''raw'' = Some (AnyString raw)) \<longrightarrow>
            (\<exists>st'. convert_element w st element = Inr st'))
       \<and> (\<forall>out storage.
            runParser w (ParserPath cfg) filePath source = (out, None) \<and>
            json_Decode w out = Inr storage \<and> element \<in> set storage \<and>
            (\<nexists>raw. Extra element ''raw'' = Some (AnyString raw)) \<longrightarrow>
            isl (parseJS w cfg filePath source))"
proof (intro conjI allI impI)
  obtain result warnings where st: "st = (result, warnings)" by (cases st)
  {
    assume "\<nexists>raw. Extra element ''raw'' = Some (AnyString raw)"
    then have "\<not> is_string (index (Extra element) ''raw'')"
      by (simp add: is_string_index_iff)
    from parse_literal_panics [OF this]
    show "convert_element w st element =
              Inl (InterfaceConversion (Sprintf_T (index (Extra element) ''raw'')))"
      by (simp add: st convert_element_Literal [OF kind])
  }
  {
    assume "\<exists>raw. Extra element ''raw'' = Some (AnyString raw)"
    then obtain raw where "Extra element ''raw'' = Some (AnyString raw)" by blast
    from parse_literal_value [OF this]
    show "\<exists>st'. convert_element w st element = Inr st'"
      by (simp add: st convert_element_Literal [OF kind])
  }
  {
    fix out storage
    assume a: "runParser w (ParserPath cfg) filePath source = (out, None) \<and>
            json_Decode w out = Inr storage \<and> element \<in> set storage \<and>
            (\<nexists>raw. Extra element ''raw'' = Some (AnyString raw))"
    then have "\<not> well_shaped w element"
      by (simp add: well_shaped_def kind is_string_index_iff)
    with a have "isl (convert_elements w (zero_parserOutput\<lparr>ValidInput := True\<rparr>, []) storage)"
      using convert_elements_panics_iff [of w _ storage] by blast
    then show "isl (parseJS w cfg filePath source)"
      using a parseJS_decoded [of w cfg filePath source out storage]
      by (auto split: sum.splits)
  }
qed

theorem parseJS_literal_raw_assertion_witness:
  "SymbolType (demo_element Literal ''String'' (AnyString ''a'') []) = Literal
   \<and> (\<nexists>raw. Extra (demo_element Literal ''String'' (AnyString ''a'') []) ''raw''
              = Some (AnyString raw))
   \<and> convert_element (demo_world ([], None) []) (zero_parserOutput, [])
        (demo_element Literal ''String'' (AnyString ''a'') [])
      = Inl (InterfaceConversion ''<nil>'')
   \<and> convert_element (demo_world ([], None) []) (zero_parserOutput, [])
        (demo_element Literal ''Numeric'' (AnyFloat64 7) [(''raw'', AnyFloat64 7)])
      = Inl (InterfaceConversion ''float64'')
   \<and> (\<exists>st'. convert_element (demo_world ([], None) []) (zero_parserOutput, [])
        (demo_element Literal ''String'' (AnyString ''a'') [(''raw'', AnyString ''a'')])
      = Inr st')
   \<and> isl (parseJS (demo_world (''[...]'', None)
              [demo_element Comment ''Line'' (AnyString ''c'') [],
               demo_element Literal ''String'' (AnyString ''a'') []])
            \<lparr>ParserPath = ''parser.js''\<rparr> ''a.js'' [])"
proof -
  let ?w = "demo_world ([], None) [] :: (string, int) world"
  let ?none = "demo_element Literal ''String'' (AnyString ''a'') []"
  let ?num = "demo_element Literal ''Numeric'' (AnyFloat64 7) [(''raw'', AnyFloat64 7)]"
  let ?ok = "demo_element Literal ''String'' (AnyString ''a'') [(''raw'', AnyString ''a'')]"
  let ?c = "demo_element Comment ''Line'' (AnyString ''c'') []"
  let ?batch = "demo_world (''[...]'', None) [?c, ?none] :: (string, int) world"
  let ?cfg = "\<lparr>ParserPath = ''parser.js''\<rparr>"
  have kind: "SymbolType ?none = Literal" "SymbolType ?num = Literal" "SymbolType ?ok = Literal"
    by (simp_all add: demo_element_def)
  have absent: "\<nexists>raw. Extra ?none ''raw'' = Some (AnyString raw)"
    by (simp add: demo_element_def)
  have number: "\<nexists>raw. Extra ?num ''raw'' = Some (AnyString raw)"
    by (simp add: demo_element_def)
  have present: "\<exists>raw. Extra ?ok ''raw'' = Some (AnyString raw)"
    by (simp add: demo_element_def)
  have run: "runParser ?batch (ParserPath ?cfg) ''a.js'' [] = (''[...]'', None)"
    by (simp add: runParser_def demo_world_def)
  have dec: "json_Decode ?batch ''[...]'' = Inr [?c, ?none]"
    by (simp add: demo_world_def)
  have c1: "convert_element ?w (zero_parserOutput, []) ?none = Inl (InterfaceConversion ''<nil>'')"
    using parseJS_literal_raw_assertion [OF kind(1), where w = ?w and st = "(zero_parserOutput, [])"
        and cfg = ?cfg and filePath = "[]" and source = "[]"] absent
    by (simp add: demo_element_def index_def)
  have c2: "convert_element ?w (zero_parserOutput, []) ?num = Inl (InterfaceConversion ''float64'')"
    using parseJS_literal_raw_assertion [OF kind(2), where w = ?w and st = "(zero_parserOutput, [])"
        and cfg = ?cfg and filePath = "[]" and source = "[]"] number
    by (simp add: demo_element_def index_def)
  have c3: "\<exists>st'. convert_element ?w (zero_parserOutput, []) ?ok = Inr st'"
    using parseJS_literal_raw_assertion [OF kind(3), where w = ?w and st = "(zero_parserOutput, [])"
        and cfg = ?cfg and filePath = "[]" and source = "[]"] present
    by blast
  have c4: "isl (parseJS ?batch ?cfg ''a.js'' [])"
    using parseJS_literal_raw_assertion [OF kind(1), where w = ?batch and cfg = ?cfg
        and filePath = "''a.js''" and source = "[]" and st = "(zero_parserOutput, [])"]
      run dec absent
    by simp
  from kind(1) absent c1 c2 c3 c4 show ?thesis by (intro conjI)
qed

text \<open>
  Claim C1. An identifier record whose payload is a number, or a comment record whose
  payload is null, makes \<open>parseJS\<close> panic, also when well shaped records come before
  and after it; the same records without the offending one are decoded.
\<close>

theorem parseJS_payload_shape_violation:
  "parseJS (demo_world (''[...]'', None)
       [demo_element Comment ''Line'' (AnyString ''before'') [],
        demo_element Identifier ''Function'' (AnyFloat64 5) [],
        demo_element Comment ''Line'' (AnyString ''after'') []])
     \<lparr>ParserPath = ''parser.js''\<rparr> ''a.js'' []
     = Inl (InterfaceConversion ''float64'')
   \<and> parseJS (demo_world (''[...]'', None)
       [demo_element Identifier ''Function'' (AnyString ''f'') [],
        demo_element Comment ''Line'' AnyNil [],
        demo_element Identifier ''Variable'' (AnyString ''v'') []])
     \<lparr>ParserPath = ''parser.js''\<rparr> ''a.js'' []
     = Inl (InterfaceConversion ''<nil>'')
   \<and> (\<exists>returned.
        parseJS (demo_world (''[...]'', None)
          [demo_element Comment ''Line'' (AnyString ''before'') [],
           demo_element Comment ''Line'' (AnyString ''after'') []])
          \<lparr>ParserPath = ''parser.js''\<rparr> ''a.js'' []
        = Inr ((returned, ''[...]'', None), [])
        \<and> map parsedComment.Data (Comments returned) = [''before'', ''after''])"
  by (simp add: parseJS_def runParser_def demo_world_def demo_element_def
        convert_element_def zero_parserOutput_def)

end
